theory Spec2Isabelle
  imports Main "HOL-Library.Word"
begin

unbundle bit_operations_syntax

section \<open>Machine types and failures\<close>

text \<open>
  The parser is C++ on a little-endian 64-bit host (\<^verbatim>\<open>endian.h\<close> asserts the
  byte order). \<^verbatim>\<open>std::size_t\<close> is a 64-bit word, a byte of the file an 8-bit word,
  and a \<^verbatim>\<open>std::string\<close> a list of characters. A pointer into the file buffer is the
  list of the bytes from that address to the end of the buffer: advancing the pointer
  drops bytes, and reading more bytes than the list holds leaves the buffer.
\<close>

type_synonym size_t = "64 word"
type_synonym byte = "8 word"
type_synonym pointer = "byte list"

text \<open>
  Every way a call can end without a value: the two exception classes of
  \<^verbatim>\<open>exceptions.h\<close> (a \<^verbatim>\<open>parse_exception\<close> carries its text and, when it was thrown
  by \<^verbatim>\<open>std::throw_with_nested\<close>, the exception nested in it), a failed
  \<^verbatim>\<open>assert\<close> (the assertions of the source are kept: nothing in it defines
  \<^verbatim>\<open>NDEBUG\<close>), \<^verbatim>\<open>std::bad_optional_access\<close>, and a read outside the buffer
  (undefined behaviour in C++, a failure of its own here).
\<close>

datatype error =
    eof
  | parse_exception string "error option"
  | assertion_failed
  | bad_optional_access
  | out_of_bounds

definition char_of_byte :: "byte \<Rightarrow> char" where
  "char_of_byte b =
     Char (bit b 0) (bit b 1) (bit b 2) (bit b 3) (bit b 4) (bit b 5) (bit b 6) (bit b 7)"

section \<open>The byte source (filereader.h, filereader.cpp)\<close>

datatype reader_type = file_precache | file_map

text \<open>
  The fields of \<^verbatim>\<open>class reader\<close>, with the dynamic class of the object (which
  \<^verbatim>\<open>read\<close> a virtual call reaches) and the shared bytes of the file.
\<close>

record reader =
  kind :: reader_type
  buffer :: "byte list"
  pos :: size_t
  len :: size_t
  chunk_len :: size_t
  overrun :: size_t
  current_offset :: size_t
  first_valid_offset :: size_t

definition OVERRUN_EOF :: size_t where
  "OVERRUN_EOF = - 1"

text \<open>The constructors: the length of the file, every other field at its initialiser.\<close>

definition reader_factory :: "reader_type \<Rightarrow> byte list \<Rightarrow> reader" where
  "reader_factory type bytes =
     \<lparr> kind = type, buffer = bytes, pos = 0, len = of_nat (length bytes),
       chunk_len = - 1, overrun = 0, current_offset = 0, first_valid_offset = 0 \<rparr>"

text \<open>
  \<^verbatim>\<open>reader::split\<close>: the loop runs \<open>i = 0 .. num - 1\<close>; \<open>num\<close> is a
  \<^verbatim>\<open>uint8_t\<close> promoted to \<^verbatim>\<open>size_t\<close>, the division is the integer division of C++
  and \<open>- 1\<close> wraps. Each clone copies every field of the reader.
\<close>

definition split :: "reader \<Rightarrow> 8 word \<Rightarrow> error + reader list" where
  "split r num =
     (if len r = 0 then Inl eof
      else Inr (map (\<lambda>i. r\<lparr> pos := len r div ucast num * of_nat i,
                              chunk_len := len r div ucast num * (of_nat i + 1) - 1 \<rparr>)
                    [0 ..< unat num]))"

definition get_overrun :: "reader \<Rightarrow> size_t" where
  "get_overrun r = overrun r"

definition get_first_valid_offset :: "reader \<Rightarrow> size_t" where
  "get_first_valid_offset r = first_valid_offset r"

text \<open>\<^verbatim>\<open>reader::notify_success\<close>: the first offset is kept, then the end of the file throws.\<close>

definition notify_success :: "size_t \<Rightarrow> reader \<Rightarrow> (error + unit) \<times> reader" where
  "notify_success offset r =
     (let r1 = (if first_valid_offset r = 0 then r\<lparr> first_valid_offset := offset \<rparr> else r)
      in if pos r1 = len r1 then (Inl eof, r1) else (Inr (), r1))"

text \<open>
  \<^verbatim>\<open>file_precache::read\<close> and \<^verbatim>\<open>file_map::read\<close>. Both return the address
  \<open>buffer + pos\<close>, here the bytes from \<open>pos\<close> on.
\<close>

definition file_precache_read :: "size_t \<Rightarrow> reader \<Rightarrow> (error + pointer) \<times> reader" where
  "file_precache_read bytes_to_read r =
     (let new_pos = pos r + bytes_to_read in
      if new_pos > len r then
        (Inl (parse_exception ''file ended with incomplete record'' (Some eof)),
         r\<lparr> overrun := OVERRUN_EOF \<rparr>)
      else
        (let r1 = (if new_pos > chunk_len r then r\<lparr> overrun := new_pos \<rparr> else r)
         in (Inr (drop (unat (pos r)) (buffer r)), r1\<lparr> pos := new_pos \<rparr>)))"

definition file_map_read :: "size_t \<Rightarrow> reader \<Rightarrow> (error + pointer) \<times> reader" where
  "file_map_read bytes_to_read r =
     (if pos r + bytes_to_read > len r then (Inl eof, r)
      else (Inr (drop (unat (pos r)) (buffer r)), r\<lparr> pos := pos r + bytes_to_read \<rparr>))"

text \<open>The virtual call \<^verbatim>\<open>reader.read(n)\<close>.\<close>

definition read :: "size_t \<Rightarrow> reader \<Rightarrow> (error + pointer) \<times> reader" where
  "read bytes_to_read r =
     (case kind r of
        file_precache \<Rightarrow> file_precache_read bytes_to_read r
      | file_map \<Rightarrow> file_map_read bytes_to_read r)"

text \<open>\<^verbatim>\<open>set_pos\<close> is the same in both classes: an assertion, then the assignment.\<close>

definition set_pos :: "size_t \<Rightarrow> reader \<Rightarrow> error + reader" where
  "set_pos p r = (if p < len r then Inr (r\<lparr> pos := p \<rparr>) else Inl assertion_failed)"

definition get_pos :: "reader \<Rightarrow> size_t" where
  "get_pos r = pos r"

section \<open>The endian codec (endian.h)\<close>

text \<open>
  The byte swaps are written as the shifts and masks of the portable branch; the
  compiler intrinsics of the other branches compute the same words.
\<close>

definition read16_swap :: "16 word \<Rightarrow> bool \<Rightarrow> 16 word" where
  "read16_swap val big_endian =
     (if \<not> big_endian then val
      else (drop_bit 8 val AND 0x00FF) OR (push_bit 8 val AND 0xFF00))"

definition read32_swap :: "32 word \<Rightarrow> bool \<Rightarrow> 32 word" where
  "read32_swap val big_endian =
     (if \<not> big_endian then val
      else (drop_bit 24 val AND 0x000000FF) OR (drop_bit 8 val AND 0x0000FF00) OR
           (push_bit 8 val AND 0x00FF0000) OR (push_bit 24 val AND 0xFF000000))"

definition read64_swap :: "64 word \<Rightarrow> bool \<Rightarrow> 64 word" where
  "read64_swap val big_endian =
     (if \<not> big_endian then val
      else (drop_bit 56 val AND 0x00000000000000FF) OR (drop_bit 40 val AND 0x000000000000FF00) OR
           (drop_bit 24 val AND 0x0000000000FF0000) OR (drop_bit 8 val AND 0x00000000FF000000) OR
           (push_bit 8 val AND 0x000000FF00000000) OR (push_bit 24 val AND 0x0000FF0000000000) OR
           (push_bit 40 val AND 0x00FF000000000000) OR (push_bit 56 val AND 0xFF00000000000000))"

text \<open>
  \<^verbatim>\<open>*reinterpret_cast<const uintN_t*>(buf)\<close> on the little-endian host: the first byte
  is the least significant. The source checks no bound (``we assume buf contains enough
  bytes''); a load that leaves the buffer is \<open>out_of_bounds\<close>.
\<close>

fun load16 :: "pointer \<Rightarrow> error + 16 word" where
  "load16 (b0 # b1 # _) = Inr (ucast b0 OR push_bit 8 (ucast b1))"
| "load16 _ = Inl out_of_bounds"

fun load32 :: "pointer \<Rightarrow> error + 32 word" where
  "load32 (b0 # b1 # b2 # b3 # _) =
     Inr (ucast b0 OR push_bit 8 (ucast b1) OR push_bit 16 (ucast b2) OR push_bit 24 (ucast b3))"
| "load32 _ = Inl out_of_bounds"

fun load64 :: "pointer \<Rightarrow> error + 64 word" where
  "load64 (b0 # b1 # b2 # b3 # b4 # b5 # b6 # b7 # _) =
     Inr (ucast b0 OR push_bit 8 (ucast b1) OR push_bit 16 (ucast b2) OR push_bit 24 (ucast b3) OR
          push_bit 32 (ucast b4) OR push_bit 40 (ucast b5) OR push_bit 48 (ucast b6) OR
          push_bit 56 (ucast b7))"
| "load64 _ = Inl out_of_bounds"

fun read8 :: "pointer \<Rightarrow> bool \<Rightarrow> error + 8 word" where
  "read8 (b # _) big_endian = Inr b"
| "read8 [] big_endian = Inl out_of_bounds"

definition read16 :: "pointer \<Rightarrow> bool \<Rightarrow> error + 16 word" where
  "read16 buf big_endian = map_sum id (\<lambda>v. read16_swap v big_endian) (load16 buf)"

definition read32 :: "pointer \<Rightarrow> bool \<Rightarrow> error + 32 word" where
  "read32 buf big_endian = map_sum id (\<lambda>v. read32_swap v big_endian) (load32 buf)"

definition read64 :: "pointer \<Rightarrow> bool \<Rightarrow> error + 64 word" where
  "read64 buf big_endian = map_sum id (\<lambda>v. read64_swap v big_endian) (load64 buf)"

text \<open>
  The types \<^verbatim>\<open>read<T>\<close> and \<^verbatim>\<open>extract<T>\<close> are instantiated with, and the
  values they yield: \<^verbatim>\<open>read_helper\<close> picks the load by \<^verbatim>\<open>sizeof(T)\<close>,
  \<^verbatim>\<open>reinterpret\<close> reads the loaded bits as a \<open>T\<close>: an unsigned integer, a signed
  integer in two's complement, a \<^verbatim>\<open>bool\<close> that is true for every byte but 0. A
  floating-point value is kept as its bits.
\<close>

datatype ctype =
    uint8_t | uint16_t | uint32_t | uint64_t
  | int8_t | int16_t | int32_t | int64_t
  | float_t | double_t | bool_t

datatype cvalue =
    Unsigned nat
  | Signed int
  | Float32 "32 word"
  | Float64 "64 word"
  | Bool bool

fun sizeof :: "ctype \<Rightarrow> nat" where
  "sizeof uint8_t = 1" | "sizeof uint16_t = 2" | "sizeof uint32_t = 4" | "sizeof uint64_t = 8"
| "sizeof int8_t = 1" | "sizeof int16_t = 2" | "sizeof int32_t = 4" | "sizeof int64_t = 8"
| "sizeof float_t = 4" | "sizeof double_t = 8" | "sizeof bool_t = 1"

fun endian_read :: "ctype \<Rightarrow> pointer \<Rightarrow> bool \<Rightarrow> error + cvalue" where
  "endian_read uint8_t p be = map_sum id (\<lambda>w. Unsigned (unat w)) (read8 p be)"
| "endian_read uint16_t p be = map_sum id (\<lambda>w. Unsigned (unat w)) (read16 p be)"
| "endian_read uint32_t p be = map_sum id (\<lambda>w. Unsigned (unat w)) (read32 p be)"
| "endian_read uint64_t p be = map_sum id (\<lambda>w. Unsigned (unat w)) (read64 p be)"
| "endian_read int8_t p be = map_sum id (\<lambda>w. Signed (sint w)) (read8 p be)"
| "endian_read int16_t p be = map_sum id (\<lambda>w. Signed (sint w)) (read16 p be)"
| "endian_read int32_t p be = map_sum id (\<lambda>w. Signed (sint w)) (read32 p be)"
| "endian_read int64_t p be = map_sum id (\<lambda>w. Signed (sint w)) (read64 p be)"
| "endian_read float_t p be = map_sum id Float32 (read32 p be)"
| "endian_read double_t p be = map_sum id Float64 (read64 p be)"
| "endian_read bool_t p be = map_sum id (\<lambda>w. Bool (w \<noteq> 0)) (read8 p be)"

text \<open>\<^verbatim>\<open>extract<T>\<close>: the value, and the pointer advanced by \<^verbatim>\<open>sizeof(T)\<close>.\<close>

definition endian_extract :: "ctype \<Rightarrow> pointer \<Rightarrow> bool \<Rightarrow> error + (cvalue \<times> pointer)" where
  "endian_extract T p be = map_sum id (\<lambda>v. (v, drop (sizeof T) p)) (endian_read T p be)"

section \<open>Text formatting (the fmt library and std::to_string)\<close>

text \<open>
  Modelled from the spec: the fmt library and \<^verbatim>\<open>std::to_string\<close> are not among the
  sources. \<open>digits b n\<close> is the numeral of \<open>n\<close> in base \<open>b\<close>, most significant digit
  first, lower case, no leading zero; the spec's ``decimal'', ``\<^verbatim>\<open>0x\<dots>\<close> hex'' and
  ``\<^verbatim>\<open>0b\<dots>\<close> binary'' renderings are built from it.
\<close>

definition digit_char :: "nat \<Rightarrow> char" where
  "digit_char d = ''0123456789abcdef'' ! (d mod 16)"

function digits :: "nat \<Rightarrow> nat \<Rightarrow> string" where
  "digits b n = (if n < b \<or> b < 2 then [digit_char n] else digits b (n div b) @ [digit_char (n mod b)])"
  by pat_completeness auto
termination
  by (relation "measure snd") auto

declare digits.simps [simp del]

definition to_string :: "nat \<Rightarrow> string" where
  "to_string n = digits 10 n"

datatype Radix = DEC | HEX | BIN

text \<open>
  Modelled from the spec: \<^verbatim>\<open>fmt::format_to\<close> with \<^verbatim>\<open>"{:#x}"\<close> and \<^verbatim>\<open>"{:#b}"\<close>
  (instantiated for the unsigned types only) and with \<^verbatim>\<open>"{}"\<close>. The text of a
  floating-point value is a parameter \<open>ff\<close> of the model.
\<close>

fun format_radix :: "Radix \<Rightarrow> cvalue \<Rightarrow> string" where
  "format_radix HEX (Unsigned n) = ''0x'' @ digits 16 n"
| "format_radix BIN (Unsigned n) = ''0b'' @ digits 2 n"
| "format_radix _ _ = []"

fun format_default :: "(cvalue \<Rightarrow> string) \<Rightarrow> cvalue \<Rightarrow> string" where
  "format_default ff (Unsigned n) = digits 10 n"
| "format_default ff (Signed i) = (if i < 0 then ''-'' @ digits 10 (nat (- i)) else digits 10 (nat i))"
| "format_default ff (Bool b) = (if b then ''true'' else ''false'')"
| "format_default ff v = ff v"

section \<open>The argument parser (argparser.h)\<close>

definition INFO_BOOL :: "32 word" where "INFO_BOOL = 0x00000010"
definition INFO_SINT :: "32 word" where "INFO_SINT = 0x00000020"
definition INFO_UINT :: "32 word" where "INFO_UINT = 0x00000040"
definition INFO_FLOA :: "32 word" where "INFO_FLOA = 0x00000080"
definition INFO_ARAY :: "32 word" where "INFO_ARAY = 0x00000100"
definition INFO_STRG :: "32 word" where "INFO_STRG = 0x00000200"
definition INFO_RAWD :: "32 word" where "INFO_RAWD = 0x00000400"
definition INFO_VARI :: "32 word" where "INFO_VARI = 0x00000800"
definition INFO_FIXP :: "32 word" where "INFO_FIXP = 0x00001000"
definition INFO_TRAI :: "32 word" where "INFO_TRAI = 0x00002000"
definition INFO_STRU :: "32 word" where "INFO_STRU = 0x00004000"

definition ArgTyleMask :: "32 word" where "ArgTyleMask = 0x0000000f"
definition ArgCodingMask :: "32 word" where "ArgCodingMask = 0x00038000"

definition SCOD_ASCII :: "32 word" where "SCOD_ASCII = 0x00000000"
definition SCOD_UTF8 :: "32 word" where "SCOD_UTF8 = 0x00008000"
definition SCOD_HEX :: "32 word" where "SCOD_HEX = 0x00010000"
definition SCOD_BIN :: "32 word" where "SCOD_BIN = 0x00018000"

text \<open>The members \<^verbatim>\<open>payload_\<close> and \<^verbatim>\<open>output_\<close> of \<^verbatim>\<open>ArgParser\<close>.\<close>

record ArgParser =
  payload :: pointer
  outp :: string

text \<open>
  \<^verbatim>\<open>parseTyle<T, R>\<close>: the value is extracted, the \<^verbatim>\<open>if constexpr\<close> chain appends
  the hexadecimal or binary text, and the last statement, outside the chain, appends the
  default text.
\<close>

definition parseTyle ::
  "ctype \<Rightarrow> Radix \<Rightarrow> bool \<Rightarrow> (cvalue \<Rightarrow> string) \<Rightarrow> ArgParser \<Rightarrow> error + ArgParser" where
  "parseTyle T R BigEndian ff a =
     (case endian_extract T (payload a) BigEndian of
        Inl e \<Rightarrow> Inl e
      | Inr (val, p) \<Rightarrow>
          (let out1 = (if R = HEX then outp a @ format_radix HEX val
                       else if R = BIN then outp a @ format_radix BIN val
                       else outp a)
           in Inr \<lparr> payload = p, outp = out1 @ format_default ff val \<rparr>))"

text \<open>The helper \<^verbatim>\<open>parseTyle<T>(scod_type)\<close>.\<close>

definition parseTyle_coding ::
  "ctype \<Rightarrow> 32 word \<Rightarrow> bool \<Rightarrow> (cvalue \<Rightarrow> string) \<Rightarrow> ArgParser \<Rightarrow> error + ArgParser" where
  "parseTyle_coding T scod_type BigEndian ff a =
     (if scod_type = SCOD_HEX then parseTyle T HEX BigEndian ff a
      else if scod_type = SCOD_BIN then parseTyle T BIN BigEndian ff a
      else parseTyle T DEC BigEndian ff a)"

text \<open>The switches on \<^verbatim>\<open>TyleType\<close>, a \<^verbatim>\<open>uint8_t\<close> enumeration.\<close>

definition parseUInt ::
  "8 word \<Rightarrow> 32 word \<Rightarrow> bool \<Rightarrow> (cvalue \<Rightarrow> string) \<Rightarrow> ArgParser \<Rightarrow> error + ArgParser" where
  "parseUInt tyle_type scod_type BigEndian ff a =
     (if tyle_type = 1 then parseTyle_coding uint8_t scod_type BigEndian ff a
      else if tyle_type = 2 then parseTyle_coding uint16_t scod_type BigEndian ff a
      else if tyle_type = 3 then parseTyle_coding uint32_t scod_type BigEndian ff a
      else if tyle_type = 4 then parseTyle_coding uint64_t scod_type BigEndian ff a
      else if tyle_type = 5 then Inl (parse_exception ''not supported yet'' None)
      else Inl (parse_exception ''unknown tyle type'' None))"

definition parseSInt ::
  "8 word \<Rightarrow> bool \<Rightarrow> (cvalue \<Rightarrow> string) \<Rightarrow> ArgParser \<Rightarrow> error + ArgParser" where
  "parseSInt tyle_type BigEndian ff a =
     (if tyle_type = 1 then parseTyle int8_t DEC BigEndian ff a
      else if tyle_type = 2 then parseTyle int16_t DEC BigEndian ff a
      else if tyle_type = 3 then parseTyle int32_t DEC BigEndian ff a
      else if tyle_type = 4 then parseTyle int64_t DEC BigEndian ff a
      else if tyle_type = 5 then Inl (parse_exception ''not supported yet'' None)
      else Inl (parse_exception ''unknown tyle type'' None))"

definition parseFloat ::
  "8 word \<Rightarrow> bool \<Rightarrow> (cvalue \<Rightarrow> string) \<Rightarrow> ArgParser \<Rightarrow> error + ArgParser" where
  "parseFloat tyle_type BigEndian ff a =
     (if tyle_type = 3 then parseTyle float_t DEC BigEndian ff a
      else if tyle_type = 4 then parseTyle double_t DEC BigEndian ff a
      else Inl (parse_exception ''unknown tyle type'' None))"

definition parseBool :: "bool \<Rightarrow> (cvalue \<Rightarrow> string) \<Rightarrow> ArgParser \<Rightarrow> error + ArgParser" where
  "parseBool BigEndian ff a = parseTyle bool_t DEC BigEndian ff a"

text \<open>
  \<^verbatim>\<open>parseStr\<close>. The length is read before the zero test and the pointer advanced
  after it; \<^verbatim>\<open>resize\<close> and \<^verbatim>\<open>copy_n\<close> together append the first \<open>len - 1\<close> bytes.
  \<^verbatim>\<open>payload_[len - 1]\<close> and the copy are unchecked in the source.
\<close>

definition parseStr :: "32 word \<Rightarrow> bool \<Rightarrow> ArgParser \<Rightarrow> error + ArgParser" where
  "parseStr scod_type BigEndian a =
     (case read16 (payload a) BigEndian of
        Inl e \<Rightarrow> Inl e
      | Inr len16 \<Rightarrow>
          if len16 = 0 then Inl (parse_exception ''INFO_STRG len is 0'' None)
          else
            (let p = drop 2 (payload a); n = unat len16 in
             if scod_type = SCOD_ASCII then
               (if length p < n then Inl out_of_bounds
                else if p ! (n - 1) \<noteq> 0 then
                  Inl (parse_exception ''string is not null-terminated'' None)
                else Inr \<lparr> payload = drop n p,
                           outp = outp a @ map char_of_byte (take (n - 1) p) \<rparr>)
             else if scod_type = SCOD_UTF8 then
               Inl (parse_exception ''SCOD_UTF8 is not supported yet'' None)
             else Inl (parse_exception ''incorrect CodingType of string'' None)))"

text \<open>
  \<^verbatim>\<open>parseRaw\<close>: the output grows by \<open>len * 2 + 1\<close> characters (\<^verbatim>\<open>resize\<close> fills
  with the zero character), and the loop overwrites two of them for each byte.
\<close>

definition hexLiterals :: string where
  "hexLiterals = ''0123456789ABCDEF''"

definition parseRaw :: "bool \<Rightarrow> ArgParser \<Rightarrow> error + ArgParser" where
  "parseRaw BigEndian a =
     (case read16 (payload a) BigEndian of
        Inl e \<Rightarrow> Inl e
      | Inr len16 \<Rightarrow>
          (let p = drop 2 (payload a); n = unat len16; offset = length (outp a);
               resized = outp a @ replicate (n * 2 + 1) (CHR 0x00)
           in if length p < n then Inl out_of_bounds
              else Inr \<lparr> payload = drop n p,
                         outp = foldl (\<lambda>out i.
                                    out[offset + i * 2 := hexLiterals ! unat (drop_bit 4 (p ! i)),
                                        offset + i * 2 + 1 := hexLiterals ! unat ((p ! i) AND 0x0F)])
                                    resized [0 ..< n] \<rparr>))"

text \<open>\<^verbatim>\<open>ArgParser::parse\<close>: one argument, dispatched on the type-info word.\<close>

definition ArgParser_parse ::
  "bool \<Rightarrow> (cvalue \<Rightarrow> string) \<Rightarrow> ArgParser \<Rightarrow> error + ArgParser" where
  "ArgParser_parse BigEndian ff a0 =
     (case read32 (payload a0) BigEndian of
        Inl e \<Rightarrow> Inl e
      | Inr type \<Rightarrow>
          (let a = a0\<lparr> payload := drop 4 (payload a0) \<rparr> in
           if type AND INFO_STRG \<noteq> 0 then
             (if type AND INFO_VARI \<noteq> 0 then
                Inl (parse_exception ''how could string be variable?'' None)
              else parseStr (type AND ArgCodingMask) BigEndian a)
           else if type AND INFO_UINT \<noteq> 0 then
             parseUInt (ucast (type AND ArgTyleMask)) (type AND ArgCodingMask) BigEndian ff a
           else if type AND INFO_SINT \<noteq> 0 then
             parseSInt (ucast (type AND ArgTyleMask)) BigEndian ff a
           else if type AND INFO_FLOA \<noteq> 0 then
             parseFloat (ucast (type AND ArgTyleMask)) BigEndian ff a
           else if type AND INFO_BOOL \<noteq> 0 then parseBool BigEndian ff a
           else if type AND INFO_RAWD \<noteq> 0 then parseRaw BigEndian a
           else if type AND INFO_FIXP \<noteq> 0 \<or> type AND INFO_TRAI \<noteq> 0 \<or> type AND INFO_STRU \<noteq> 0 then
             Inl (parse_exception ''not supported yet'' None)
           else Inl (parse_exception ''unknown argument type'' None)))"

text \<open>
  The constructor: \<open>count - 1\<close> arguments each followed by a space, then the last one;
  nothing at all for \<open>count = 0\<close>.
\<close>

fun ArgParser_loop ::
  "bool \<Rightarrow> (cvalue \<Rightarrow> string) \<Rightarrow> nat \<Rightarrow> ArgParser \<Rightarrow> error + ArgParser" where
  "ArgParser_loop BigEndian ff 0 a = Inr a"
| "ArgParser_loop BigEndian ff (Suc 0) a = ArgParser_parse BigEndian ff a"
| "ArgParser_loop BigEndian ff (Suc (Suc n)) a =
     (case ArgParser_parse BigEndian ff a of
        Inl e \<Rightarrow> Inl e
      | Inr a1 \<Rightarrow> ArgParser_loop BigEndian ff (Suc n) (a1\<lparr> outp := outp a1 @ '' '' \<rparr>))"

text \<open>The constructor followed by the conversion to \<^verbatim>\<open>std::string\<close>.\<close>

definition ArgParser_string ::
  "bool \<Rightarrow> (cvalue \<Rightarrow> string) \<Rightarrow> pointer \<Rightarrow> 8 word \<Rightarrow> error + string" where
  "ArgParser_string BigEndian ff p count =
     map_sum id outp (ArgParser_loop BigEndian ff (unat count) \<lparr> payload = p, outp = [] \<rparr>)"

section \<open>The record parser (record.cpp)\<close>

subsection \<open>The conformance layer\<close>

definition UEH :: byte where "UEH = 0x01"
definition MSBF :: byte where "MSBF = 0x02"
definition WEID :: byte where "WEID = 0x04"
definition WSID :: byte where "WSID = 0x08"
definition WTMS :: byte where "WTMS = 0x10"
definition VERS :: byte where "VERS = 0xe0"

datatype Mode = Unknown | NonVerbose | Verbose

text \<open>\<^verbatim>\<open>MsgType\<close> and \<^verbatim>\<open>ControlType\<close> are \<^verbatim>\<open>int8_t\<close> enumerations.\<close>

definition TypeUnknown :: "8 word" where "TypeUnknown = - 2"
definition TypeLog :: "8 word" where "TypeLog = 0"
definition TypeAppTrace :: "8 word" where "TypeAppTrace = 1"
definition TypeNwTrace :: "8 word" where "TypeNwTrace = 2"
definition TypeControl :: "8 word" where "TypeControl = 3"

definition SUBTYPE_UNKNOWN :: "8 word" where "SUBTYPE_UNKNOWN = - 2"
definition ControlRequest :: "8 word" where "ControlRequest = 1"
definition ControlResponse :: "8 word" where "ControlResponse = 2"
definition ControlTime :: "8 word" where "ControlTime = 3"

definition SET_LOG_LEVEL :: "32 word" where "SET_LOG_LEVEL = 1"
definition GET_SOFTWARE_VERSION :: "32 word" where "GET_SOFTWARE_VERSION = 19"
definition MESSAGE_BUFFER_OVERFLOW :: "32 word" where "MESSAGE_BUFFER_OVERFLOW = 20"
definition UNREGISTER_CONTEXT :: "32 word" where "UNREGISTER_CONTEXT = 0xf01"
definition CONNECTION_INFO :: "32 word" where "CONNECTION_INFO = 0xf02"
definition TIMEZONE :: "32 word" where "TIMEZONE = 0xf03"
definition MARKER :: "32 word" where "MARKER = 0xf04"
definition CALLSW_CINJECTION :: "32 word" where "CALLSW_CINJECTION = 0xFFF"

definition CtrlServiceIdStrings :: "string list" where
  "CtrlServiceIdStrings =
     [[], ''set_log_level'', ''set_trace_status'', ''get_log_info'', ''get_default_log_level'',
      ''store_config'', ''reset_to_factory_default'', ''set_com_interface_status'',
      ''set_com_interface_max_bandwidth'', ''set_verbose_mode'', ''set_message_filtering'',
      ''set_timing_packets'', ''get_local_time'', ''use_ecu_id'', ''use_session_id'',
      ''use_timestamp'', ''use_extended_header'', ''set_default_log_level'',
      ''set_default_trace_status'', ''get_software_version'', ''message_buffer_overflow'']"

definition getCtrlServiceIdName :: "32 word \<Rightarrow> string" where
  "getCtrlServiceIdName index =
     (if index < SET_LOG_LEVEL \<or> index > MESSAGE_BUFFER_OVERFLOW
      then ''service('' @ to_string (unat index) @ '')''
      else CtrlServiceIdStrings ! unat index)"

definition CtrlReturnTypeStrings :: "string list" where
  "CtrlReturnTypeStrings =
     [''ok'', ''not_supported'', ''error'', ''3'', ''4'', ''5'', ''6'', ''7'',
      ''no_matching_context_id'']"

definition getCtrlReturnTypeName :: "byte \<Rightarrow> error + string" where
  "getCtrlReturnTypeName index =
     (if unat index \<ge> length CtrlReturnTypeStrings
      then Inl (parse_exception ''invalid CtrlReturnType'' None)
      else Inr (CtrlReturnTypeStrings ! unat index))"

definition getConnectionStatus :: "byte \<Rightarrow> string" where
  "getConnectionStatus status =
     (if status = 1 then ''disconnected''
      else if status = 2 then ''connected''
      else ''unknown'')"

definition extractHtyp :: "byte \<Rightarrow> byte \<Rightarrow> bool" where
  "extractHtyp htyp msk = (htyp AND msk \<noteq> 0)"

definition extractMsin_VERB :: "byte \<Rightarrow> byte" where
  "extractMsin_VERB msin = drop_bit 0 (msin AND 0x01)"

definition extractMsin_MSTP :: "byte \<Rightarrow> byte" where
  "extractMsin_MSTP msin = drop_bit 1 (msin AND 0x0e)"

definition extractMsin_MTIN :: "byte \<Rightarrow> byte" where
  "extractMsin_MTIN msin = drop_bit 4 (msin AND 0xf0)"

subsection \<open>The members of a record\<close>

text \<open>
  \<^verbatim>\<open>Record::Impl\<close>: the four packed header structures, member by member, the
  options and the message. An \<^verbatim>\<open>ID4\<close> is a list of four bytes.
\<close>

record Impl =
  corruptionCause :: "string option"
  storageHeader_pattern :: "byte list"
  storageHeader_seconds :: "32 word"
  storageHeader_microseconds :: "32 word"
  storageHeader_ecu :: "byte list"
  standardHeader_htyp :: byte
  standardHeader_mcnt :: byte
  standardHeader_len :: "16 word"
  standartHeaderExtra_ecu :: "byte list"
  standartHeaderExtra_seid :: "32 word"
  standartHeaderExtra_tmsp :: "32 word"
  extendedHeader_msin :: byte
  extendedHeader_noar :: byte
  extendedHeader_apid :: "byte list"
  extendedHeader_ctid :: "byte list"
  isBigEndian :: bool
  mode :: Mode
  msg_type :: "8 word"
  subType :: "8 word"
  ctrlReturnType :: byte
  ctrlServiceId :: "32 word"
  message :: string

text \<open>\<^verbatim>\<open>Impl() = default\<close>: the member initialisers.\<close>

definition Impl_new :: Impl where
  "Impl_new =
     \<lparr> corruptionCause = None,
       storageHeader_pattern = [0, 0, 0, 0], storageHeader_seconds = 0,
       storageHeader_microseconds = 0, storageHeader_ecu = [0, 0, 0, 0],
       standardHeader_htyp = 0, standardHeader_mcnt = 0, standardHeader_len = 0,
       standartHeaderExtra_ecu = [0, 0, 0, 0], standartHeaderExtra_seid = 0,
       standartHeaderExtra_tmsp = 0,
       extendedHeader_msin = 0, extendedHeader_noar = 0,
       extendedHeader_apid = [0, 0, 0, 0], extendedHeader_ctid = [0, 0, 0, 0],
       isBigEndian = False, mode = NonVerbose, msg_type = TypeUnknown,
       subType = SUBTYPE_UNKNOWN, ctrlReturnType = 0, ctrlServiceId = 0, message = [] \<rparr>"

definition isCorrupted :: "Impl \<Rightarrow> bool" where
  "isCorrupted i = (corruptionCause i \<noteq> None)"

text \<open>\<^verbatim>\<open>getCorruptionCause\<close> returns \<^verbatim>\<open>corruptionCause_.value()\<close>.\<close>

definition getCorruptionCause :: "Impl \<Rightarrow> error + string" where
  "getCorruptionCause i =
     (case corruptionCause i of None \<Rightarrow> Inl bad_optional_access | Some cause \<Rightarrow> Inr cause)"

definition getMessage :: "Impl \<Rightarrow> string" where
  "getMessage i = message i"

subsection \<open>One parse attempt\<close>

text \<open>
  The state of \<^verbatim>\<open>Impl::parse(reader)\<close>: the record being filled, the reader and the
  local counter \<open>len\<close> (a \<^verbatim>\<open>uint16_t\<close>). A step ends with a value or with a failure;
  either way the state it has reached stays, as the members of a C++ object do when an
  exception leaves a member function.
\<close>

record pstate =
  impl :: Impl
  rdr :: reader
  len_local :: "16 word"

type_synonym 'a step = "pstate \<Rightarrow> (error + 'a) \<times> pstate"

definition skip :: "unit step" where
  "skip s = (Inr (), s)"

definition throw :: "error \<Rightarrow> 'a step" where
  "throw e s = (Inl e, s)"

definition lift :: "error + 'a \<Rightarrow> 'a step" where
  "lift v s = (v, s)"

definition step_bind :: "'a step \<Rightarrow> ('a \<Rightarrow> 'b step) \<Rightarrow> 'b step" where
  "step_bind m f s = (case m s of (Inl e, s1) \<Rightarrow> (Inl e, s1) | (Inr x, s1) \<Rightarrow> f x s1)"

definition step_seq :: "unit step \<Rightarrow> 'b step \<Rightarrow> 'b step" where
  "step_seq m n = step_bind m (\<lambda>_. n)"

definition assign :: "(Impl \<Rightarrow> Impl) \<Rightarrow> unit step" where
  "assign f s = (Inr (), s\<lparr> impl := f (impl s) \<rparr>)"

definition with_impl :: "(Impl \<Rightarrow> 'a step) \<Rightarrow> 'a step" where
  "with_impl f s = f (impl s) s"

text \<open>The call \<^verbatim>\<open>reader.read(n)\<close> inside a step.\<close>

definition reader_read :: "size_t \<Rightarrow> pointer step" where
  "reader_read n s = (case read n (rdr s) of (v, r) \<Rightarrow> (v, s\<lparr> rdr := r \<rparr>))"

text \<open>
  The lambda \<^verbatim>\<open>readData\<close>: \<^verbatim>\<open>memcpy\<close> of \<^verbatim>\<open>sizeof(field)\<close> bytes from the address
  \<^verbatim>\<open>read\<close> returned, then the counter. \<open>word_of_bytes\<close> is the integer those bytes
  are on the little-endian host.
\<close>

definition readData :: "nat \<Rightarrow> (byte list) step" where
  "readData n =
     step_bind (reader_read (of_nat n)) (\<lambda>p s.
       if length p < n then (Inl out_of_bounds, s)
       else (Inr (take n p), s\<lparr> len_local := len_local s + of_nat n \<rparr>))"

definition word_of_bytes :: "byte list \<Rightarrow> 'a::len word" where
  "word_of_bytes bs = foldr (\<lambda>b w. ucast b OR push_bit 8 w) bs 0"

definition DLT_signature :: "byte list" where
  "DLT_signature = [0x44, 0x4C, 0x54, 0x01]"

text \<open>
  \<^verbatim>\<open>assembleMessage\<close>. The reads of the payload are unchecked; \<open>payload_\<close> is a local
  pointer, advanced by each \<^verbatim>\<open>extract\<close>: \<open>extract32\<close> for the four-byte types,
  \<open>extract8\<close> for the one-byte types.
\<close>

definition extract32 :: "pointer \<Rightarrow> bool \<Rightarrow> (32 word \<times> pointer) step" where
  "extract32 p be = lift (map_sum id (\<lambda>w. (w, drop 4 p)) (read32 p be))"

definition extract8 :: "pointer \<Rightarrow> (byte \<times> pointer) step" where
  "extract8 p = lift (map_sum id (\<lambda>w. (w, drop 1 p)) (read8 p False))"

text \<open>\<^verbatim>\<open>std::copy(payload_, payload_ + n, std::back_inserter(message_))\<close>.\<close>

definition copy_to_message :: "pointer \<Rightarrow> nat \<Rightarrow> unit step" where
  "copy_to_message p n =
     (if length p < n then throw out_of_bounds
      else assign (\<lambda>i. i\<lparr> message := message i @ map char_of_byte (take n p) \<rparr>))"

text \<open>The \<^verbatim>\<open>switch\<close> on the service of a response.\<close>

definition assembleMessage_service :: "32 word \<Rightarrow> pointer \<Rightarrow> unit step" where
  "assembleMessage_service sid p =
     (if sid = GET_SOFTWARE_VERSION then
        step_bind (extract32 p False) (\<lambda>(n, p1). copy_to_message p1 (unat n))
      else if sid = CONNECTION_INFO then
        step_bind (extract8 p) (\<lambda>(status, p1).
          step_seq (assign (\<lambda>i. i\<lparr> message := message i @ getConnectionStatus status @ '' '' \<rparr>))
                   (copy_to_message p1 4))
      else if sid = TIMEZONE then
        step_bind (extract32 p False) (\<lambda>(timezone, p1).
          step_seq (assign (\<lambda>i. i\<lparr> message := to_string (unat timezone) \<rparr>))
            (step_bind (extract8 p1) (\<lambda>(isDst, p2).
               if isDst \<noteq> 0 then assign (\<lambda>i. i\<lparr> message := message i @ ''DST'' \<rparr>) else skip)))
      else skip)"

definition assembleMessage_control :: "pointer \<Rightarrow> unit step" where
  "assembleMessage_control data =
     with_impl (\<lambda>i0.
       if mode i0 = Verbose then
         throw (parse_exception ''no support for verbose ctrl messages. is it required?'' None)
       else
         step_bind (extract32 data (isBigEndian i0)) (\<lambda>(sid, p1).
         step_seq (assign (\<lambda>i. i\<lparr> ctrlServiceId := sid \<rparr>))
           (if subType i0 = ControlResponse then
              step_bind (extract8 p1) (\<lambda>(rt, p2).
              step_seq (assign (\<lambda>i. i\<lparr> ctrlReturnType := rt \<rparr>))
                (if sid = MARKER then assign (\<lambda>i. i\<lparr> message := ''MARKER'' \<rparr>)
                 else
                   step_bind (lift (getCtrlReturnTypeName rt)) (\<lambda>rname.
                   step_seq (assign (\<lambda>i. i\<lparr> message :=
                               ''['' @ getCtrlServiceIdName sid @ '' '' @ rname @ ''] '' \<rparr>))
                            (assembleMessage_service sid p2))))
            else assign (\<lambda>i. i\<lparr> message := ''['' @ getCtrlServiceIdName sid @ '']'' \<rparr>))))"

definition assembleMessage :: "(cvalue \<Rightarrow> string) \<Rightarrow> pointer \<Rightarrow> unit step" where
  "assembleMessage ff data =
     with_impl (\<lambda>i0.
       if msg_type i0 = TypeControl then assembleMessage_control data
       else if mode i0 = Verbose then
         (if extendedHeader_noar i0 > 0 then
            step_bind (lift (ArgParser_string (isBigEndian i0) ff data (extendedHeader_noar i0)))
              (\<lambda>text. assign (\<lambda>i. i\<lparr> message := text \<rparr>))
          else skip)
       else
         step_bind (extract32 data False) (\<lambda>(id, p1).
           assign (\<lambda>i. i\<lparr> message := ''['' @ to_string (unat id) @ '']'' \<rparr>)))"

text \<open>
  \<^verbatim>\<open>Impl::parse(reader)\<close>, statement by statement. The swaps of \<open>seid\<close>, \<open>tmsp\<close> and
  \<open>len\<close> are unconditional (\<^verbatim>\<open>isSwapNeeded\<close> is true on the host); the body length is
  computed in \<^verbatim>\<open>uint16_t\<close> and wraps.
\<close>

definition sizeof_DltStorageHeader :: "16 word" where
  "sizeof_DltStorageHeader = 16"

definition parse_extended :: "unit step" where
  "parse_extended =
     step_bind (readData 10) (\<lambda>b.
     step_seq (assign (\<lambda>i. i\<lparr> extendedHeader_msin := b ! 0, extendedHeader_noar := b ! 1,
                                 extendedHeader_apid := take 4 (drop 2 b),
                                 extendedHeader_ctid := take 4 (drop 6 b) \<rparr>))
     (step_seq (with_impl (\<lambda>i. if extractMsin_VERB (extendedHeader_msin i) \<noteq> 0
                                  then assign (\<lambda>i. i\<lparr> mode := Verbose \<rparr>) else skip))
               (assign (\<lambda>i. i\<lparr> msg_type := extractMsin_MSTP (extendedHeader_msin i),
                                 subType := extractMsin_MTIN (extendedHeader_msin i) \<rparr>))))"

definition parse_body :: "(cvalue \<Rightarrow> string) \<Rightarrow> unit step" where
  "parse_body ff =
     step_seq (\<lambda>s. (Inr (), s\<lparr> len_local := read16_swap (standardHeader_len (impl s)) True
                                              - (len_local s - sizeof_DltStorageHeader) \<rparr>))
       (step_bind (\<lambda>s. reader_read (ucast (len_local s)) s) (\<lambda>data. assembleMessage ff data))"

definition parse_extras :: "(cvalue \<Rightarrow> string) \<Rightarrow> unit step" where
  "parse_extras ff =
     with_impl (\<lambda>i0.
       let htyp = standardHeader_htyp i0 in
       step_seq (assign (\<lambda>i. i\<lparr> isBigEndian := extractHtyp htyp MSBF \<rparr>))
       (step_seq (if extractHtyp htyp WEID
                  then step_bind (readData 4) (\<lambda>b. assign (\<lambda>i. i\<lparr> standartHeaderExtra_ecu := b \<rparr>))
                  else skip)
       (step_seq (if extractHtyp htyp WSID
                  then step_bind (readData 4) (\<lambda>buf. assign (\<lambda>i.
                         i\<lparr> standartHeaderExtra_seid := read32_swap (word_of_bytes buf) True \<rparr>))
                  else skip)
       (step_seq (if extractHtyp htyp WTMS
                  then step_bind (readData 4) (\<lambda>buf. assign (\<lambda>i.
                         i\<lparr> standartHeaderExtra_tmsp := read32_swap (word_of_bytes buf) True \<rparr>))
                  else skip)
       (step_seq (if extractHtyp htyp UEH then parse_extended else skip)
                 (parse_body ff))))))"

definition Impl_parse_reader :: "(cvalue \<Rightarrow> string) \<Rightarrow> unit step" where
  "Impl_parse_reader ff =
     step_bind (readData 4) (\<lambda>b.
     step_seq (assign (\<lambda>i. i\<lparr> storageHeader_pattern := b \<rparr>))
     (step_seq (with_impl (\<lambda>i. if storageHeader_pattern i \<noteq> DLT_signature
                                  then throw (parse_exception ''invalid DLT signature'' None)
                                  else skip))
     (step_bind (readData 4) (\<lambda>b.
     step_seq (assign (\<lambda>i. i\<lparr> storageHeader_seconds := word_of_bytes b \<rparr>))
     (step_bind (readData 4) (\<lambda>b.
     step_seq (assign (\<lambda>i. i\<lparr> storageHeader_microseconds := word_of_bytes b \<rparr>))
     (step_bind (readData 4) (\<lambda>b.
     step_seq (assign (\<lambda>i. i\<lparr> storageHeader_ecu := b \<rparr>))
     (step_bind (readData 4) (\<lambda>b.
     step_seq (assign (\<lambda>i. i\<lparr> standardHeader_htyp := b ! 0, standardHeader_mcnt := b ! 1,
                                 standardHeader_len := word_of_bytes (drop 2 b) \<rparr>))
              (parse_extras ff)))))))))))"

subsection \<open>The retry loop of \<^verbatim>\<open>Impl::parse\<close>\<close>

text \<open>
  No step of a parse attempt changes the length of the reader. With the assertion of
  \<^verbatim>\<open>set_pos\<close> this bounds the retries: each one starts one byte further, below the
  length.
\<close>

definition keeps_len :: "'a step \<Rightarrow> bool" where
  "keeps_len m = (\<forall>s. len (rdr (snd (m s))) = len (rdr s))"

lemma keeps_len_bind: "keeps_len m \<Longrightarrow> (\<And>x. keeps_len (f x)) \<Longrightarrow> keeps_len (step_bind m f)"
  by (auto simp: keeps_len_def step_bind_def split: prod.splits sum.splits) (metis snd_conv)+

lemma keeps_len_seq: "keeps_len m \<Longrightarrow> keeps_len n \<Longrightarrow> keeps_len (step_seq m n)"
  by (simp add: step_seq_def keeps_len_bind)

lemma keeps_len_basic [simp]:
  "keeps_len skip" "keeps_len (throw e)" "keeps_len (lift v)" "keeps_len (assign f)"
  by (simp_all add: keeps_len_def skip_def throw_def lift_def assign_def)

lemma keeps_len_with_impl: "(\<And>i. keeps_len (f i)) \<Longrightarrow> keeps_len (with_impl f)"
  by (simp add: keeps_len_def with_impl_def)

lemma keeps_len_if: "keeps_len a \<Longrightarrow> keeps_len b \<Longrightarrow> keeps_len (if c then a else b)"
  by simp

lemma read_len: "len (snd (read n r)) = len r"
  by (simp add: read_def file_precache_read_def file_map_read_def Let_def split: reader_type.splits)

lemma keeps_len_reader_read: "keeps_len (reader_read n)"
  by (simp add: keeps_len_def reader_read_def read_len split: prod.splits)
     (metis read_len snd_conv)

lemma keeps_len_readData: "keeps_len (readData n)"
  unfolding readData_def
  by (rule keeps_len_bind[OF keeps_len_reader_read]) (simp add: keeps_len_def)

lemma keeps_len_extract [simp]: "keeps_len (extract32 p be)" "keeps_len (extract8 p)" "keeps_len (copy_to_message p n)"
  by (simp_all add: extract32_def extract8_def copy_to_message_def)

lemmas keeps_len_intros = keeps_len_bind keeps_len_seq keeps_len_with_impl keeps_len_if
  keeps_len_readData keeps_len_reader_read conjI impI

lemma keeps_len_service: "keeps_len (assembleMessage_service sid p)"
  unfolding assembleMessage_service_def
  by (intro keeps_len_intros | simp add: split_beta)+

lemma keeps_len_control: "keeps_len (assembleMessage_control p)"
  unfolding assembleMessage_control_def
  by (intro keeps_len_intros keeps_len_service | simp add: split_beta)+

lemma keeps_len_assembleMessage: "keeps_len (assembleMessage ff p)"
  unfolding assembleMessage_def
  by (intro keeps_len_intros keeps_len_control | simp add: split_beta)+

lemma keeps_len_parse_extended: "keeps_len parse_extended"
  unfolding parse_extended_def
  by (intro keeps_len_intros | simp)+

lemma keeps_len_parse_body: "keeps_len (parse_body ff)"
proof -
  have a: "keeps_len (\<lambda>s. (Inr (), s\<lparr> len_local := read16_swap (standardHeader_len (impl s)) True
                                              - (len_local s - sizeof_DltStorageHeader) \<rparr>))"
    by (simp add: keeps_len_def)
  have b: "keeps_len (\<lambda>s. reader_read (ucast (len_local s)) s)"
    using keeps_len_reader_read by (simp add: keeps_len_def)
  show ?thesis
    unfolding parse_body_def
    by (intro keeps_len_seq keeps_len_bind a b keeps_len_assembleMessage)
qed

lemma keeps_len_parse_extras: "keeps_len (parse_extras ff)"
  unfolding parse_extras_def Let_def
  by (intro keeps_len_intros keeps_len_parse_extended keeps_len_parse_body | simp)+

lemma keeps_len_Impl_parse_reader: "keeps_len (Impl_parse_reader ff)"
  unfolding Impl_parse_reader_def
  by (intro keeps_len_intros keeps_len_parse_extras | simp)+

lemma Impl_parse_reader_len:
  "Impl_parse_reader ff s = (v, s1) \<Longrightarrow> len (rdr s1) = len (rdr s)"
  using keeps_len_Impl_parse_reader[of ff] by (auto simp: keeps_len_def dest: spec[of _ s])

text \<open>The measure of the retry loop: the bytes left, and one more when the cursor is past the end.\<close>

definition retry_measure :: "reader \<Rightarrow> nat" where
  "retry_measure r = (if pos r < len r then unat (len r - pos r) else unat (len r) + 1)"

lemma retry_measure_decreases:
  fixes p l :: size_t
  assumes "p + 1 < l"
  shows "(if p + 1 < l then unat (l - (p + 1)) else unat l + 1)
         < (if p < l then unat (l - p) else unat l + 1)"
  using assms by unat_arith

lemma Impl_parse_retry_decreases:
  assumes "(Inl (parse_exception w None), s) = Impl_parse_reader ff \<lparr> impl = this, rdr = r, len_local = 0 \<rparr>"
    and "set_pos (get_pos r + 1) (rdr s) = Inr r1"
  shows "retry_measure r1 < retry_measure r"
proof -
  have l: "len (rdr s) = len r"
    using Impl_parse_reader_len[of ff "\<lparr> impl = this, rdr = r, len_local = 0 \<rparr>" _ s] assms(1)
    by (metis pstate.select_convs(2))
  from assms(2) have "pos r + 1 < len r \<and> pos r1 = pos r + 1 \<and> len r1 = len r"
    using l by (auto simp: set_pos_def get_pos_def split: if_splits)
  then show ?thesis
    using retry_measure_decreases[of "pos r" "len r"] by (simp add: retry_measure_def)
qed

text \<open>
  \<^verbatim>\<open>Record::Impl::parse(self, reader, parse_except_handler)\<close>. The handler is the
  lambda of the caller; it works on the caller's state \<open>h\<close>. A parse failure hands a
  copy of the record, its cause set, to the handler; a nested exception is rethrown;
  otherwise the cursor moves one byte past the start of the attempt and the same record
  object, with whatever the attempt left in its members, is parsed again. Every other
  exception leaves the function, the one of \<^verbatim>\<open>notify_success\<close> too.
\<close>

function Impl_parse ::
  "(cvalue \<Rightarrow> string) \<Rightarrow> (Impl \<Rightarrow> 'h \<Rightarrow> 'h) option \<Rightarrow> Impl \<Rightarrow> reader \<Rightarrow> 'h
     \<Rightarrow> (error + unit) \<times> Impl \<times> reader \<times> 'h" where
  "Impl_parse ff parse_except_handler this r h =
     (case Impl_parse_reader ff \<lparr> impl = this, rdr = r, len_local = 0 \<rparr> of
        (Inr _, s) \<Rightarrow>
          (case notify_success (get_pos r) (rdr s) of
             (Inl e, r1) \<Rightarrow> (Inl e, impl s, r1, h)
           | (Inr _, r1) \<Rightarrow> (Inr (), impl s, r1, h))
      | (Inl (parse_exception what nested), s) \<Rightarrow>
          (case (case parse_except_handler of
                   None \<Rightarrow> (impl s, h)
                 | Some handler \<Rightarrow>
                     ((impl s)\<lparr> corruptionCause := None \<rparr>,
                      handler ((impl s)\<lparr> corruptionCause := Some what \<rparr>) h)) of
             (this1, h1) \<Rightarrow>
               (case nested of
                  Some e \<Rightarrow> (Inl e, this1, rdr s, h1)
                | None \<Rightarrow>
                    (case set_pos (get_pos r + 1) (rdr s) of
                       Inl e \<Rightarrow> (Inl e, this1, rdr s, h1)
                     | Inr r1 \<Rightarrow> Impl_parse ff parse_except_handler this1 r1 h1)))
      | (Inl e, s) \<Rightarrow> (Inl e, impl s, rdr s, h))"
  by pat_completeness auto
termination
  by (relation "measure (\<lambda>(ff, hd, this, r, h). retry_measure r)")
     (auto intro: Impl_parse_retry_decreases)

declare Impl_parse.simps [simp del]

section \<open>The worker and the supervisor (thread_supervisor.cpp)\<close>

record task =
  t_reader :: reader
  t_records :: "Impl list"

text \<open>The lambda \<^verbatim>\<open>parse_exception_handler\<close> of \<^verbatim>\<open>task::execute\<close>.\<close>

definition parse_exception_handler :: "Impl \<Rightarrow> Impl list \<Rightarrow> Impl list" where
  "parse_exception_handler record records =
     (if length records = 0 \<or> \<not> isCorrupted (last records) then records @ [record] else records)"

text \<open>
  \<^verbatim>\<open>task::execute\<close>. \<open>holder\<close> is \<^verbatim>\<open>supervisor::exception_ptr_holder\<close>, the one cell
  the threads share. Each round parses into a fresh record; \<^verbatim>\<open>push_back\<close> is the
  statement after \<^verbatim>\<open>record.parse\<close>, so it runs only when the parse returned. An
  \<^verbatim>\<open>eof\<close> ends the loop, any other exception is stored in the holder and ends it; a
  failed assertion and a read outside the buffer end the program. The loop is not known
  to end for every state of a reader, so it is a partial function.
\<close>

partial_function (option) task_execute ::
  "(cvalue \<Rightarrow> string) \<Rightarrow> error option \<Rightarrow> task \<Rightarrow> (error + task \<times> error option) option" where
  "task_execute ff holder t =
     (case Impl_parse ff (Some parse_exception_handler) Impl_new (t_reader t) (t_records t) of
        (Inr _, record, r, records) \<Rightarrow>
          (if get_overrun r > 0 then Some (Inr (\<lparr> t_reader = r, t_records = records @ [record] \<rparr>, holder))
           else if holder \<noteq> None then Some (Inr (\<lparr> t_reader = r, t_records = records @ [record] \<rparr>, holder))
           else task_execute ff holder \<lparr> t_reader = r, t_records = records @ [record] \<rparr>)
      | (Inl eof, record, r, records) \<Rightarrow> Some (Inr (\<lparr> t_reader = r, t_records = records \<rparr>, holder))
      | (Inl assertion_failed, record, r, records) \<Rightarrow> Some (Inl assertion_failed)
      | (Inl out_of_bounds, record, r, records) \<Rightarrow> Some (Inl out_of_bounds)
      | (Inl e, record, r, records) \<Rightarrow> Some (Inr (\<lparr> t_reader = r, t_records = records \<rparr>, Some e)))"

record supervisor =
  threads_num :: "8 word"
  tasks :: "task list"

text \<open>
  The constructor. \<open>cores_num\<close> is the number of workers; the source takes it from the
  hardware and stores it in a \<^verbatim>\<open>uint8_t\<close>.
\<close>

definition supervisor_new :: "reader \<Rightarrow> 8 word \<Rightarrow> error + supervisor" where
  "supervisor_new r cores_num =
     (case split r cores_num of
        Inl e \<Rightarrow> Inl e
      | Inr readers \<Rightarrow>
          Inr \<lparr> threads_num = cores_num,
                tasks = map (\<lambda>c. \<lparr> t_reader = c, t_records = [] \<rparr>) readers \<rparr>)"

text \<open>
  The threads share nothing but the holder. The model runs them one after the other, in
  the order they are started, which is one of the schedules of the program.
\<close>

fun run_threads ::
  "(cvalue \<Rightarrow> string) \<Rightarrow> error option \<Rightarrow> task list \<Rightarrow> (error + task list \<times> error option) option" where
  "run_threads ff holder [] = Some (Inr ([], holder))"
| "run_threads ff holder (t # ts) =
     (case task_execute ff holder t of
        None \<Rightarrow> None
      | Some (Inl e) \<Rightarrow> Some (Inl e)
      | Some (Inr (t1, holder1)) \<Rightarrow>
          (case run_threads ff holder1 ts of
             None \<Rightarrow> None
           | Some (Inl e) \<Rightarrow> Some (Inl e)
           | Some (Inr (ts1, holder2)) \<Rightarrow> Some (Inr (t1 # ts1, holder2))))"

text \<open>
  The test of the merge loop for one chunk: \<open>results_i\<close> is \<^verbatim>\<open>results[i]\<close>, \<open>prev\<close> and
  \<open>cur\<close> are the readers of the tasks \<open>i - 1\<close> and \<open>i\<close>. The assertion sits in the second
  disjunct and is reached only when the first is false and both overruns are the
  sentinel.
\<close>

definition skip_first_record :: "Impl list \<Rightarrow> reader \<Rightarrow> reader \<Rightarrow> error + bool" where
  "skip_first_record results_i prev cur =
     (if length results_i > 0 \<and> isCorrupted (results_i ! 0) then
        (let prev_overrun = get_overrun prev;
             cur_overrun = get_overrun cur;
             cur_valid_offset = get_first_valid_offset cur
         in if prev_overrun > 0 \<and> prev_overrun = cur_valid_offset then Inr True
            else if prev_overrun = OVERRUN_EOF \<and> cur_overrun = OVERRUN_EOF then
              (if length results_i = 1 then Inr True else Inl assertion_failed)
            else Inr False)
      else Inr False)"

text \<open>The merge loop, \<open>i = 1 .. threads_num - 1\<close>, appending to \<open>records\<close>.\<close>

fun merge_loop ::
  "reader list \<Rightarrow> Impl list list \<Rightarrow> nat list \<Rightarrow> Impl list \<Rightarrow> error + Impl list" where
  "merge_loop readers results [] records = Inr records"
| "merge_loop readers results (i # is) records =
     (if length readers \<le> i \<or> length results \<le> i then Inl out_of_bounds
      else
        (case skip_first_record (results ! i) (readers ! (i - 1)) (readers ! i) of
           Inl e \<Rightarrow> Inl e
         | Inr skip_first \<Rightarrow>
             merge_loop readers results is
               (records @ drop (if skip_first then 1 else 0) (results ! i))))"

definition merge :: "8 word \<Rightarrow> task list \<Rightarrow> error + Impl list" where
  "merge n ts =
     (let results = map t_records ts in
      if length results = 0 then Inl out_of_bounds
      else merge_loop (map t_reader ts) results [1 ..< unat n] (results ! 0))"

text \<open>
  \<^verbatim>\<open>supervisor::execute\<close>: the threads, the merge, and the exception of the holder
  rethrown. The value is what \<open>records\<close> holds when the call returns.
\<close>

definition supervisor_execute ::
  "(cvalue \<Rightarrow> string) \<Rightarrow> error option \<Rightarrow> supervisor \<Rightarrow> (error + Impl list) option" where
  "supervisor_execute ff holder sv =
     (case run_threads ff holder (tasks sv) of
        None \<Rightarrow> None
      | Some (Inl e) \<Rightarrow> Some (Inl e)
      | Some (Inr (ts, holder1)) \<Rightarrow>
          (case merge (threads_num sv) ts of
             Inl e \<Rightarrow> Some (Inl e)
           | Inr records \<Rightarrow>
               (case holder1 of None \<Rightarrow> Some (Inr records) | Some e \<Rightarrow> Some (Inl e))))"

text \<open>
  \<^verbatim>\<open>dlt_file_adapter::parse\<close> (interface.cpp): a pre-loaded reader and the supervisor;
  the \<^verbatim>\<open>eof\<close> that \<^verbatim>\<open>split\<close> throws for an empty file is swallowed and leaves no
  records.
\<close>

definition parse_file :: "(cvalue \<Rightarrow> string) \<Rightarrow> byte list \<Rightarrow> 8 word \<Rightarrow> (error + Impl list) option" where
  "parse_file ff bytes cores_num =
     (case supervisor_new (reader_factory file_precache bytes) cores_num of
        Inl eof \<Rightarrow> Some (Inr [])
      | Inl e \<Rightarrow> Some (Inl e)
      | Inr sv \<Rightarrow> supervisor_execute ff None sv)"

section \<open>Evaluation on concrete inputs\<close>

text \<open>
  A floating-point formatter for inputs that hold no floating-point argument, and the
  facts the simplifier needs to run the model on numerals.
\<close>

definition no_float :: "cvalue \<Rightarrow> string" where
  "no_float v = []"

lemma replicate_numeral: "replicate (numeral v) x = x # replicate (numeral v - 1) x"
  by (simp add: numeral_eq_Suc)

lemma list_update_Cons_numeral: "(x # xs)[numeral v := y] = x # xs[numeral v - 1 := y]"
  by (simp add: numeral_eq_Suc)

lemmas arg_defs =
  ArgParser_string_def ArgParser_parse_def read32_def read32_swap_def read16_def read16_swap_def
  INFO_STRG_def INFO_UINT_def INFO_SINT_def INFO_FLOA_def INFO_BOOL_def INFO_RAWD_def
  INFO_VARI_def INFO_FIXP_def INFO_TRAI_def INFO_STRU_def
  ArgTyleMask_def ArgCodingMask_def SCOD_HEX_def SCOD_BIN_def SCOD_ASCII_def SCOD_UTF8_def
  parseUInt_def parseTyle_coding_def parseTyle_def endian_extract_def parseRaw_def parseStr_def

lemmas step_defs =
  step_bind_def step_seq_def skip_def throw_def lift_def assign_def with_impl_def
  reader_read_def readData_def read_def file_precache_read_def file_map_read_def

lemmas parse_defs =
  Impl_parse_reader_def parse_extras_def parse_extended_def parse_body_def
  assembleMessage_def assembleMessage_control_def assembleMessage_service_def
  extract32_def extract8_def copy_to_message_def word_of_bytes_def DLT_signature_def
  extractHtyp_def extractMsin_VERB_def extractMsin_MSTP_def extractMsin_MTIN_def
  UEH_def MSBF_def WEID_def WSID_def WTMS_def TypeControl_def TypeUnknown_def
  SUBTYPE_UNKNOWN_def read32_def read32_swap_def read16_swap_def
  sizeof_DltStorageHeader_def to_string_def

lemmas sup_defs =
  parse_file_def supervisor_new_def supervisor_execute_def merge_def split_def
  skip_first_record_def get_overrun_def get_first_valid_offset_def get_pos_def set_pos_def
  notify_success_def parse_exception_handler_def isCorrupted_def OVERRUN_EOF_def

section \<open>The chunk split\<close>

text \<open>
  The bounds of the cursors \<^verbatim>\<open>split\<close> returns, as numbers, and the bounds the
  specification words give: worker \<open>i\<close> starts at \<open>floor(len * i / n)\<close> and its fence
  is \<open>floor(len * (i + 1) / n) - 1\<close>.
\<close>

definition chunk_bounds :: "reader \<Rightarrow> 8 word \<Rightarrow> error + (nat \<times> nat) list" where
  "chunk_bounds r num = map_sum id (map (\<lambda>c. (unat (pos c), unat (chunk_len c)))) (split r num)"

definition spec_chunk_bounds :: "nat \<Rightarrow> nat \<Rightarrow> (nat \<times> nat) list" where
  "spec_chunk_bounds l n = map (\<lambda>i. (l * i div n, l * (i + 1) div n - 1)) [0 ..< n]"

lemma unat_ucast_num: "unat (ucast (num :: 8 word) :: size_t) = unat num"
  by (simp add: unsigned_ucast_eq take_bit_nat_eq_self_iff)
     (rule less_le_trans[OF unsigned_less], simp)

lemma unat_of_nat_small: "i < 2 ^ 64 \<Longrightarrow> unat (of_nat i :: size_t) = i"
  by (simp add: unat_of_nat)

lemma unat_chunk_start:
  fixes l :: size_t and num :: "8 word"
  assumes "i \<le> unat num"
  shows "unat (l div ucast num * of_nat i) = unat l div unat num * i"
proof -
  have q: "unat (l div ucast num) = unat l div unat num"
    by (simp add: unat_div unat_ucast_num)
  have "unat num < 2 ^ 8" using unsigned_less[of num, where 'a=nat] by simp
  then have i: "i < 2 ^ 64" using assms by simp
  have "unat l div unat num * i \<le> unat l div unat num * unat num"
    using assms by simp
  also have "\<dots> \<le> unat l" by simp
  also have "\<dots> < 2 ^ 64" using unsigned_less[of l, where 'a=nat] by simp
  finally have b: "unat l div unat num * i < 2 ^ 64" .
  have "unat (l div ucast num) * unat (of_nat i :: size_t) < 2 ^ LENGTH(64)"
    using b i by (simp add: q unat_of_nat_small)
  then have "unat (l div ucast num * of_nat i) = unat (l div ucast num) * unat (of_nat i :: size_t)"
    by (simp only: unat_mult_lem)
  then show ?thesis using i by (simp add: q unat_of_nat_small)
qed

lemma split_Inr:
  "len r \<noteq> 0 \<Longrightarrow>
   split r num = Inr (map (\<lambda>i. r\<lparr> pos := len r div ucast num * of_nat i,
                                  chunk_len := len r div ucast num * (of_nat i + 1) - 1 \<rparr>)
                        [0 ..< unat num])"
  by (simp add: split_def)

text \<open>
  Claim C4, as stated, at a file of five bytes and three workers: the code gives the
  cursors the bounds (0,0), (1,1), (2,2), the specification words (0,0), (1,2), (3,4).
\<close>

theorem split_floor_counterexample:
  "chunk_bounds (reader_factory file_precache [0, 0, 0, 0, 0]) 3 = Inr [(0, 0), (1, 1), (2, 2)]
   \<and> spec_chunk_bounds 5 3 = [(0, 0), (1, 2), (3, 4)]
   \<and> chunk_bounds (reader_factory file_precache [0, 0, 0, 0, 0]) 3 \<noteq> Inr (spec_chunk_bounds 5 3)"
  by (simp add: chunk_bounds_def split_def reader_factory_def spec_chunk_bounds_def upt_rec)

text \<open>
  Claim C4, amended. For a file of length \<open>len > 0\<close> and \<open>n \<ge> 1\<close> workers,
  \<^verbatim>\<open>split\<close> returns \<open>n\<close> cursors; worker \<open>i\<close> starts at \<open>floor(len / n) * i\<close>, and the
  fence of every worker but the last is \<open>floor(len / n) * (i + 1) - 1\<close>, one byte before
  the next worker's start, when \<open>n \<le> len\<close>. When \<open>n\<close> divides \<open>len\<close> the start of every
  worker is \<open>floor(len * i / n)\<close> and the fence of every worker is
  \<open>floor(len * (i + 1) / n) - 1\<close>, so the chunks partition \<open>[0, len)\<close>.
\<close>

theorem split_chunks:
  assumes "len r \<noteq> 0" and "num \<noteq> 0"
  shows "\<exists>rs. split r num = Inr rs \<and> length rs = unat num \<and>
           (\<forall>i < unat num.
              unat (pos (rs ! i)) = unat (len r) div unat num * i \<and>
              (Suc i < unat num \<longrightarrow> pos (rs ! Suc i) = chunk_len (rs ! i) + 1) \<and>
              (Suc i < unat num \<longrightarrow> unat num \<le> unat (len r) \<longrightarrow>
                 unat (chunk_len (rs ! i)) = unat (len r) div unat num * (i + 1) - 1) \<and>
              (unat num dvd unat (len r) \<longrightarrow>
                 unat (pos (rs ! i)) = unat (len r) * i div unat num \<and>
                 unat (chunk_len (rs ! i)) = unat (len r) * (i + 1) div unat num - 1))"
proof -
  let ?L = "unat (len r)" and ?n = "unat num"
  let ?q = "?L div ?n"
  let ?rs = "map (\<lambda>i. r\<lparr> pos := len r div ucast num * of_nat i,
                              chunk_len := len r div ucast num * (of_nat i + 1) - 1 \<rparr>)
                    [0 ..< unat num]"
  have n0: "0 < ?n" using assms(2) by (simp add: unat_gt_0)
  have L0: "0 < ?L" using assms(1) by (simp add: unat_gt_0)
  have fence_unat: "unat (len r div ucast num * (of_nat i + 1) - 1) = ?q * (i + 1) - 1"
    if "i < ?n" "?n \<le> ?L" for i
  proof -
    have "len r div ucast num * (of_nat i + 1) = len r div ucast num * of_nat (i + 1)"
      by (simp add: add.commute)
    then have u: "unat (len r div ucast num * (of_nat i + 1)) = ?q * (i + 1)"
      using that(1) by (simp only: ) (subst unat_chunk_start, simp_all)
    have "0 < ?q" using that(2) n0 by (simp add: div_greater_zero_iff)
    then have "len r div ucast num * (of_nat i + 1) \<noteq> 0"
      using u by (metis mult_is_0 add_is_0 less_numeral_extra(3) unat_0 zero_neq_one)
    then have "unat (len r div ucast num * (of_nat i + 1) - 1)
                 = unat (len r div ucast num * (of_nat i + 1)) - 1"
      by (rule unat_minus_one)
    then show ?thesis by (simp only: u)
  qed
  have dvd1: "?q * i = ?L * i div ?n" if "?n dvd ?L" for i
    using that by (metis div_mult_swap mult.commute)
  show ?thesis
  proof (intro exI conjI allI impI)
    show "split r num = Inr ?rs" using assms(1) by (rule split_Inr)
    show "length ?rs = ?n" by simp
  next
    fix i assume i: "i < ?n"
    show "unat (pos (?rs ! i)) = ?q * i" using i by (simp add: unat_chunk_start)
    show "pos (?rs ! Suc i) = chunk_len (?rs ! i) + 1" if "Suc i < ?n"
      using i that by (simp add: add.commute)
    show "unat (chunk_len (?rs ! i)) = ?q * (i + 1) - 1" if "?n \<le> ?L"
      using i that fence_unat[of i] by simp
    show "unat (pos (?rs ! i)) = ?L * i div ?n" if "?n dvd ?L"
      using i that dvd1[of i] by (simp add: unat_chunk_start)
    show "unat (chunk_len (?rs ! i)) = ?L * (i + 1) div ?n - 1" if "?n dvd ?L"
    proof -
      have "?n \<le> ?L" using that L0 by (simp add: dvd_imp_le)
      then show ?thesis using i that dvd1[of "i + 1"] fence_unat[of i] by simp
    qed
  qed
qed

text \<open>The theorem at a file of six bytes and three workers: the chunks are [0,1], [2,3], [4,5].\<close>

theorem split_chunks_witness:
  "len (reader_factory file_precache [0, 0, 0, 0, 0, 0]) \<noteq> 0 \<and> (3 :: 8 word) \<noteq> 0 \<and>
   (\<exists>rs. split (reader_factory file_precache [0, 0, 0, 0, 0, 0]) 3 = Inr rs \<and> length rs = 3 \<and>
         unat (pos (rs ! 1)) = 2 \<and> unat (chunk_len (rs ! 1)) = 3 \<and>
         unat (pos (rs ! 2)) = 4 \<and> unat (chunk_len (rs ! 2)) = 5)"
proof -
  let ?r = "reader_factory file_precache [0, 0, 0, 0, 0, 0]"
  have h1: "len ?r \<noteq> 0" by (simp add: reader_factory_def)
  have h2: "(3 :: 8 word) \<noteq> 0" by simp
  have l: "unat (len ?r) = 6" by (simp add: reader_factory_def)
  from split_chunks[OF h1 h2] obtain rs where rs: "split ?r 3 = Inr rs" "length rs = 3"
    and all: "\<forall>i < 3.
              unat (pos (rs ! i)) = 6 div 3 * i \<and>
              (Suc i < 3 \<longrightarrow> pos (rs ! Suc i) = chunk_len (rs ! i) + 1) \<and>
              (Suc i < 3 \<longrightarrow> (3::nat) \<le> 6 \<longrightarrow> unat (chunk_len (rs ! i)) = 6 div 3 * (i + 1) - 1) \<and>
              ((3::nat) dvd 6 \<longrightarrow>
                 unat (pos (rs ! i)) = 6 * i div 3 \<and>
                 unat (chunk_len (rs ! i)) = 6 * (i + 1) div 3 - 1)"
    unfolding l by auto
  from all[rule_format, of 1] all[rule_format, of 2]
  have "unat (pos (rs ! 1)) = 2 \<and> unat (chunk_len (rs ! 1)) = 3 \<and>
        unat (pos (rs ! 2)) = 4 \<and> unat (chunk_len (rs ! 2)) = 5"
    by simp
  with rs h1 h2 show ?thesis by blast
qed

section \<open>The arguments of a verbose message\<close>

lemma digits_hex_12345678: "digits 16 305419896 = ''12345678''"
  by (simp add: digits.simps digit_char_def)

lemma digits_dec_305419896: "digits 10 305419896 = ''305419896''"
  by (simp add: digits.simps digit_char_def)

text \<open>
  Claim C5 at the input of the specification's scenario: one argument, type-info word
  0x00010043 (UINT, 32 bit, HEX) and the value bytes 78 56 34 12, little-endian. The
  claim promises the text \<open>0x12345678\<close>; the code appends the decimal text to it.
\<close>

theorem uint_hex_appends_decimal:
  "ArgParser_string False ff [0x43, 0x00, 0x01, 0x00, 0x78, 0x56, 0x34, 0x12] 1
     = Inr ''0x12345678305419896''"
  by (simp add: arg_defs digits_hex_12345678 digits_dec_305419896)

text \<open>
  Claim C7 at the input of the specification's scenario: one RAW argument of length 3
  with the bytes DE AD BE. The claim promises the six characters \<open>DEADBE\<close>; the code
  appends seven, the last one the zero character.
\<close>

theorem raw_appends_zero_character:
  "ArgParser_string False ff [0x00, 0x04, 0x00, 0x00, 0x03, 0x00, 0xDE, 0xAD, 0xBE] 1
     = Inr [CHR ''D'', CHR ''E'', CHR ''A'', CHR ''D'', CHR ''B'', CHR ''E'', CHR 0x00]"
  by (simp add: arg_defs hexLiterals_def replicate_numeral list_update_Cons_numeral Let_def upt_rec)

subsection \<open>A string argument\<close>















section \<open>The corruption cause of a record\<close>

text \<open>
  Claim C9. For a record that is not corrupted, \<^verbatim>\<open>getCorruptionCause\<close> returns no
  text: \<^verbatim>\<open>value()\<close> of the empty optional throws \<^verbatim>\<open>std::bad_optional_access\<close>.
\<close>

theorem getCorruptionCause_throws:
  assumes "\<not> isCorrupted record"
  shows "getCorruptionCause record = Inl bad_optional_access"
  using assms by (simp add: isCorrupted_def getCorruptionCause_def)

text \<open>The theorem at a freshly constructed record.\<close>

theorem getCorruptionCause_throws_witness:
  "\<not> isCorrupted Impl_new \<and> getCorruptionCause Impl_new = Inl bad_optional_access"
proof -
  have h: "\<not> isCorrupted Impl_new" by (simp add: isCorrupted_def Impl_new_def)
  from getCorruptionCause_throws[OF h] h show ?thesis by simp
qed

section \<open>The two byte sources\<close>

text \<open>
  Claim C2 at a file of four bytes. A read of five bytes, past the end of the file: the
  pre-loaded source throws a parse failure with the \<^verbatim>\<open>eof\<close> nested and sets the overrun
  to the sentinel; the memory-mapped source throws a bare \<^verbatim>\<open>eof\<close> and leaves the overrun
  at 0. A read of four bytes across a chunk fence of 1: the pre-loaded source records the
  overrun 4, the memory-mapped source records none.
\<close>

theorem byte_sources_differ:
  "fst (read 5 (reader_factory file_precache [1, 2, 3, 4]))
     = Inl (parse_exception ''file ended with incomplete record'' (Some eof))
   \<and> fst (read 5 (reader_factory file_map [1, 2, 3, 4])) = Inl eof
   \<and> overrun (snd (read 5 (reader_factory file_precache [1, 2, 3, 4]))) = OVERRUN_EOF
   \<and> overrun (snd (read 5 (reader_factory file_map [1, 2, 3, 4]))) = 0
   \<and> overrun (snd (read 4 ((reader_factory file_precache [1, 2, 3, 4])\<lparr> chunk_len := 1 \<rparr>))) = 4
   \<and> overrun (snd (read 4 ((reader_factory file_map [1, 2, 3, 4])\<lparr> chunk_len := 1 \<rparr>))) = 0"
  by (simp add: read_def file_precache_read_def file_map_read_def reader_factory_def OVERRUN_EOF_def)

section \<open>The worker on whole files\<close>

text \<open>
  Two valid records. The first, of 24 bytes, has no extended header: version 1,
  counter 6, length 8, message id 7. The second, of 34 bytes, has an extended header: a
  non-verbose log message of the application APP1 and the context CTX1 with message
  id 42.
\<close>

definition short_record_bytes :: "byte list" where
  "short_record_bytes =
     [0x44, 0x4C, 0x54, 0x01,  0x01, 0x00, 0x00, 0x00,  0x02, 0x00, 0x00, 0x00,
      0x45, 0x43, 0x55, 0x31,
      0x20, 0x06, 0x00, 0x08,
      0x07, 0x00, 0x00, 0x00]"

definition one_record_file :: "byte list" where
  "one_record_file =
     [0x44, 0x4C, 0x54, 0x01,  0x01, 0x00, 0x00, 0x00,  0x02, 0x00, 0x00, 0x00,
      0x45, 0x43, 0x55, 0x31,
      0x21, 0x07, 0x00, 0x12,
      0x40, 0x00, 0x41, 0x50, 0x50, 0x31, 0x43, 0x54, 0x58, 0x31,
      0x2A, 0x00, 0x00, 0x00]"

definition two_record_file :: "byte list" where
  "two_record_file = short_record_bytes @ one_record_file"

text \<open>The records these bytes parse to, and the placeholder of a bad signature.\<close>

definition short_record :: Impl where
  "short_record =
     Impl_new\<lparr> storageHeader_pattern := [0x44, 0x4C, 0x54, 0x01], storageHeader_seconds := 1,
               storageHeader_microseconds := 2, storageHeader_ecu := [0x45, 0x43, 0x55, 0x31],
               standardHeader_htyp := 0x20, standardHeader_mcnt := 6, standardHeader_len := 0x0800,
               message := ''[7]'' \<rparr>"

definition long_record :: Impl where
  "long_record =
     Impl_new\<lparr> storageHeader_pattern := [0x44, 0x4C, 0x54, 0x01], storageHeader_seconds := 1,
               storageHeader_microseconds := 2, storageHeader_ecu := [0x45, 0x43, 0x55, 0x31],
               standardHeader_htyp := 0x21, standardHeader_mcnt := 7, standardHeader_len := 0x1200,
               extendedHeader_msin := 0x40, extendedHeader_noar := 0,
               extendedHeader_apid := [0x41, 0x50, 0x50, 0x31],
               extendedHeader_ctid := [0x43, 0x54, 0x58, 0x31],
               msg_type := 0, subType := 4, message := ''[42]'' \<rparr>"

definition bad_signature :: "byte list \<Rightarrow> Impl" where
  "bad_signature bytes =
     Impl_new\<lparr> corruptionCause := Some ''invalid DLT signature'', storageHeader_pattern := bytes \<rparr>"

text \<open>The cursor \<^verbatim>\<open>split(1)\<close> gives the only worker of the one-record file.\<close>

definition only_cursor :: reader where
  "only_cursor = (reader_factory file_precache one_record_file)\<lparr> chunk_len := 33 \<rparr>"

lemma digits_42: "digits 10 42 = ''42''"
  by (simp add: digits.simps digit_char_def)

lemma digits_7: "digits 10 7 = ''7''"
  by (simp add: digits.simps digit_char_def)

lemmas file_defs =
  reader_factory_def one_record_file_def two_record_file_def short_record_bytes_def
  short_record_def long_record_def bad_signature_def only_cursor_def Impl_new_def

text \<open>
  Claim C3 at a file that is one valid record of 34 bytes, parsed by one worker. The
  parse attempt succeeds: it returns, with the cursor at 34, the length of the file, and
  the record complete. The worker, and the whole parse of the file, end with no record:
  \<^verbatim>\<open>notify_success\<close> throws \<^verbatim>\<open>eof\<close> inside \<^verbatim>\<open>Record::parse\<close>, before
  \<^verbatim>\<open>push_back\<close> is reached.
\<close>

theorem last_record_not_appended:
  "Impl_parse_reader ff \<lparr> impl = Impl_new, rdr = only_cursor, len_local = 0 \<rparr>
     = (Inr (), \<lparr> impl = long_record, rdr = only_cursor\<lparr> pos := 34, overrun := 34 \<rparr>,
                 len_local = 4 \<rparr>)
   \<and> len only_cursor = 34
   \<and> task_execute ff None \<lparr> t_reader = only_cursor, t_records = [] \<rparr>
     = Some (Inr (\<lparr> t_reader = only_cursor\<lparr> pos := 34, overrun := 34 \<rparr>, t_records = [] \<rparr>, None))
   \<and> parse_file ff one_record_file 1 = Some (Inr [])"
  by (simp add: task_execute.simps Impl_parse.simps file_defs step_defs parse_defs sup_defs
        Let_def digits_42 upt_rec)

text \<open>
  Claim C1 at the specification's own scenario: two valid records back to back (24 and
  34 bytes), two workers, the split point 29 inside the second record. One worker
  yields the first record; two workers yield the first record and a corrupted
  placeholder. The second worker starts inside the second record and meets the end of
  the file with no record of its own, so its first valid offset stays 0; the first
  worker's overrun is 58, the length of the file, not the sentinel; neither test of the
  merge holds and the placeholder is kept.
\<close>

theorem two_workers_differ_from_one:
  "parse_file ff two_record_file 1 = Some (Inr [short_record])
   \<and> parse_file ff two_record_file 2 = Some (Inr [short_record, bad_signature [0, 0, 0, 2]])
   \<and> parse_file ff two_record_file 2 \<noteq> parse_file ff two_record_file 1"
  by (simp add: task_execute.simps Impl_parse.simps file_defs step_defs parse_defs sup_defs
        Let_def digits_42 digits_7 upt_rec)

section \<open>The merge\<close>

text \<open>
  The test of the merge in the words of the specification: the leading record of chunk
  \<open>i\<close> is dropped iff it is corrupted and either the previous chunk's overrun is
  positive and equals this chunk's first valid offset, or both overruns are the
  sentinel. \<open>spec_reconciled\<close> is what the chunk then contributes; \<open>assertion_holds\<close> is the
  condition of the \<^verbatim>\<open>assert\<close> in the second test, where it is evaluated.
\<close>

definition spec_leading_dropped :: "reader \<Rightarrow> reader \<Rightarrow> Impl list \<Rightarrow> bool" where
  "spec_leading_dropped prev cur results_i =
     (isCorrupted (results_i ! 0) \<and>
      ((overrun prev > 0 \<and> overrun prev = first_valid_offset cur) \<or>
       (overrun prev = OVERRUN_EOF \<and> overrun cur = OVERRUN_EOF)))"

definition spec_reconciled :: "reader \<Rightarrow> reader \<Rightarrow> Impl list \<Rightarrow> Impl list" where
  "spec_reconciled prev cur results_i =
     (if results_i \<noteq> [] \<and> spec_leading_dropped prev cur results_i then tl results_i else results_i)"

definition assertion_holds :: "reader \<Rightarrow> reader \<Rightarrow> Impl list \<Rightarrow> bool" where
  "assertion_holds prev cur results_i =
     (if results_i \<noteq> [] \<and> isCorrupted (results_i ! 0) \<and> overrun prev \<noteq> first_valid_offset cur
         \<and> overrun prev = OVERRUN_EOF \<and> overrun cur = OVERRUN_EOF
      then length results_i = 1 else True)"

lemma OVERRUN_EOF_positive: "0 < OVERRUN_EOF"
  by (simp add: OVERRUN_EOF_def word_gt_0)

lemma skip_first_record_eq:
  assumes "assertion_holds prev cur results_i"
  shows "skip_first_record results_i prev cur
           = Inr (results_i \<noteq> [] \<and> spec_leading_dropped prev cur results_i)"
  using assms OVERRUN_EOF_positive
  by (auto simp: skip_first_record_def assertion_holds_def spec_leading_dropped_def get_overrun_def
        get_first_valid_offset_def Let_def split: if_splits)

lemma skip_first_record_fails:
  assumes "\<not> assertion_holds prev cur results_i"
  shows "skip_first_record results_i prev cur = Inl assertion_failed"
  using assms OVERRUN_EOF_positive
  by (auto simp: skip_first_record_def assertion_holds_def get_overrun_def
        get_first_valid_offset_def Let_def split: if_splits)

text \<open>
  With \<^verbatim>\<open>NDEBUG\<close> defined the \<^verbatim>\<open>assert\<close> expands to nothing; the test that is left is
  the one of the specification.
\<close>

definition skip_first_record_NDEBUG :: "Impl list \<Rightarrow> reader \<Rightarrow> reader \<Rightarrow> bool" where
  "skip_first_record_NDEBUG results_i prev cur =
     (if length results_i > 0 \<and> isCorrupted (results_i ! 0) then
        (let prev_overrun = get_overrun prev;
             cur_overrun = get_overrun cur;
             cur_valid_offset = get_first_valid_offset cur
         in if prev_overrun > 0 \<and> prev_overrun = cur_valid_offset then True
            else if prev_overrun = OVERRUN_EOF \<and> cur_overrun = OVERRUN_EOF then True
            else False)
      else False)"

lemma skip_first_record_NDEBUG_eq:
  "skip_first_record_NDEBUG results_i prev cur
     = (results_i \<noteq> [] \<and> spec_leading_dropped prev cur results_i)"
  by (auto simp: skip_first_record_NDEBUG_def spec_leading_dropped_def get_overrun_def
        get_first_valid_offset_def Let_def)

lemma drop_reconciled:
  "drop (if results_i \<noteq> [] \<and> spec_leading_dropped prev cur results_i then 1 else 0) results_i
     = spec_reconciled prev cur results_i"
  by (simp add: spec_reconciled_def drop_Suc)

lemma merge_loop_reconciles:
  assumes "\<forall>i \<in> set is. 0 < i \<and> i < length ts \<and>
             assertion_holds (t_reader (ts ! (i - 1))) (t_reader (ts ! i)) (t_records (ts ! i))"
  shows "merge_loop (map t_reader ts) (map t_records ts) is records
           = Inr (records @ concat (map (\<lambda>i. spec_reconciled (t_reader (ts ! (i - 1))) (t_reader (ts ! i))
                                                (t_records (ts ! i))) is))"
  using assms
proof (induction "is" arbitrary: records)
  case Nil
  then show ?case by simp
next
  case (Cons i "is")
  then have i: "0 < i" "i < length ts"
    and a: "assertion_holds (t_reader (ts ! (i - 1))) (t_reader (ts ! i)) (t_records (ts ! i))"
    by simp_all
  from i have j: "i - 1 < length ts" by simp
  have rest: "\<forall>k \<in> set is. 0 < k \<and> k < length ts \<and>
                assertion_holds (t_reader (ts ! (k - 1))) (t_reader (ts ! k)) (t_records (ts ! k))"
    using Cons.prems by simp
  show ?case
    using i j a by (simp add: skip_first_record_eq drop_reconciled Cons.IH[OF rest])
qed

lemma merge_loop_fails:
  assumes "\<forall>i \<in> set is. 0 < i \<and> i < length ts"
    and "\<exists>i \<in> set is.
           \<not> assertion_holds (t_reader (ts ! (i - 1))) (t_reader (ts ! i)) (t_records (ts ! i))"
  shows "merge_loop (map t_reader ts) (map t_records ts) is records = Inl assertion_failed"
  using assms
proof (induction "is" arbitrary: records)
  case Nil
  then show ?case by simp
next
  case (Cons i "is")
  then have i: "0 < i" "i < length ts" by simp_all
  from i have j: "i - 1 < length ts" by simp
  show ?case
  proof (cases "assertion_holds (t_reader (ts ! (i - 1))) (t_reader (ts ! i)) (t_records (ts ! i))")
    case True
    with Cons.prems have rest: "\<forall>k \<in> set is. 0 < k \<and> k < length ts"
      "\<exists>k \<in> set is.
         \<not> assertion_holds (t_reader (ts ! (k - 1))) (t_reader (ts ! k)) (t_records (ts ! k))"
      by auto
    show ?thesis
      using i j True by (simp add: skip_first_record_eq Cons.IH[OF rest])
  next
    case False
    show ?thesis
      using i j False by (simp add: skip_first_record_fails)
  qed
qed

text \<open>
  A file of 52 bytes that ends inside a record, the placeholder of a read past the end
  of the file, and a cursor that has run off the end.
\<close>

definition truncated_file :: "byte list" where
  "truncated_file =
     [0x44, 0x4C, 0x54, 0x01,  0x00, 0x00, 0x00, 0x00,  0x00, 0x00, 0x00, 0x00,
      0x00, 0x00, 0x00, 0x00,
      0x00, 0x00, 0xFF, 0xFF,
      0x00, 0x00, 0x00, 0x00, 0x00, 0x00,
      0x00] @ short_record_bytes @ [0x00]"

definition end_of_file :: Impl where
  "end_of_file = Impl_new\<lparr> corruptionCause := Some ''file ended with incomplete record'' \<rparr>"

definition overran_end :: "size_t \<Rightarrow> reader" where
  "overran_end offset =
     (reader_factory file_precache truncated_file)\<lparr> overrun := OVERRUN_EOF, first_valid_offset := offset \<rparr>"

text \<open>
  Claim C8 at a file of 52 bytes and two workers. The first chunk starts with a
  signature and a header that announces 65535 bytes, so the first worker runs off the end
  of the file; the second chunk holds one stray byte, a valid record and one more stray
  byte, so the second worker returns a placeholder, the record and a second placeholder
  and runs off the end too. The leading record of the second chunk is corrupted and both
  overruns are the sentinel: the claim drops it and appends the other two records. The
  code evaluates \<^verbatim>\<open>assert(results[i].size() == 1)\<close> on a list of three records: its own
  assertion fails and no merged output is produced. The second conjunct is the condition
  of the claim at the results of the second chunk, the third the merge alone on such
  results, the fourth the test with the assertion compiled out.
\<close>

theorem merge_fails_own_assertion:
  "parse_file no_float truncated_file 2 = Some (Inl assertion_failed)
   \<and> spec_leading_dropped (overran_end 0) (overran_end 27)
        [bad_signature [0x00, 0x44, 0x4C, 0x54], short_record, end_of_file]
   \<and> merge 2 [\<lparr> t_reader = overran_end 0, t_records = [end_of_file] \<rparr>,
               \<lparr> t_reader = overran_end 27,
                 t_records = [bad_signature [0x00, 0x44, 0x4C, 0x54], short_record, end_of_file] \<rparr>]
       = Inl assertion_failed
   \<and> skip_first_record_NDEBUG
        [bad_signature [0x00, 0x44, 0x4C, 0x54], short_record, end_of_file]
        (overran_end 0) (overran_end 27)"
  by (simp add: task_execute.simps Impl_parse.simps truncated_file_def end_of_file_def
        overran_end_def spec_leading_dropped_def skip_first_record_NDEBUG_def
        file_defs step_defs parse_defs sup_defs Let_def digits_7 upt_rec)

text \<open>
  The merge on any tasks \<open>ts\<close> of \<open>n\<close> workers after the join. If for every chunk \<open>i > 0\<close>
  the assertion holds where it is evaluated, the merged output is the first chunk's
  records followed, in chunk order, by each later chunk's records without the leading one
  iff that record is corrupted and either the previous overrun is positive and equals the
  chunk's first valid offset or both overruns are the sentinel; every other record is
  appended unchanged and in order. If the assertion does not hold at some chunk, the merge
  fails it.
\<close>

lemma merge_reconciles:
  assumes "ts \<noteq> []" and "unat n = length ts"
    and "\<forall>i \<in> set [1 ..< length ts].
           assertion_holds (t_reader (ts ! (i - 1))) (t_reader (ts ! i)) (t_records (ts ! i))"
  shows "merge n ts =
           Inr (t_records (ts ! 0) @
                concat (map (\<lambda>i. spec_reconciled (t_reader (ts ! (i - 1))) (t_reader (ts ! i))
                                     (t_records (ts ! i))) [1 ..< length ts]))"
proof -
  have "\<forall>i \<in> set [1 ..< length ts]. 0 < i \<and> i < length ts \<and>
          assertion_holds (t_reader (ts ! (i - 1))) (t_reader (ts ! i)) (t_records (ts ! i))"
    using assms(3) by simp
  from merge_loop_reconciles[OF this, of "t_records (ts ! 0)"] assms(1,2)
  show ?thesis by (simp add: merge_def Let_def)
qed

lemma merge_fails:
  assumes "ts \<noteq> []" and "unat n = length ts"
    and "\<exists>i \<in> set [1 ..< length ts].
           \<not> assertion_holds (t_reader (ts ! (i - 1))) (t_reader (ts ! i)) (t_records (ts ! i))"
  shows "merge n ts = Inl assertion_failed"
proof -
  have "\<forall>i \<in> set [1 ..< length ts]. 0 < i \<and> i < length ts" by simp
  from merge_loop_fails[OF this assms(3), of "t_records (ts ! 0)"] assms(1,2)
  show ?thesis by (simp add: merge_def Let_def)
qed

text \<open>
  Two chunks where the assertion is not evaluated: the first worker crossed its fence and stopped at offset
  58, the second worker's first valid record starts at 58, and its list is a corrupted
  placeholder and a record. The placeholder is dropped, the record kept.
\<close>

definition stopped_at :: "size_t \<Rightarrow> size_t \<Rightarrow> reader" where
  "stopped_at over valid =
     (reader_factory file_precache two_record_file)\<lparr> overrun := over, first_valid_offset := valid \<rparr>"

lemma merge_reconciles_two_chunks:
  "merge 2 [\<lparr> t_reader = stopped_at 58 0, t_records = [short_record] \<rparr>,
            \<lparr> t_reader = stopped_at 0 58, t_records = [bad_signature [0, 0, 0, 2], long_record] \<rparr>]
     = Inr [short_record, long_record]"
proof -
  let ?ts = "[\<lparr> t_reader = stopped_at 58 0, t_records = [short_record] \<rparr>,
              \<lparr> t_reader = stopped_at 0 58, t_records = [bad_signature [0, 0, 0, 2], long_record] \<rparr>]"
  have h1: "?ts \<noteq> []" by simp
  have h2: "unat (2 :: 8 word) = length ?ts" by simp
  have h3: "\<forall>i \<in> set [1 ..< length ?ts].
              assertion_holds (t_reader (?ts ! (i - 1))) (t_reader (?ts ! i)) (t_records (?ts ! i))"
    by (simp add: upt_rec assertion_holds_def stopped_at_def OVERRUN_EOF_def)
  show ?thesis
    using merge_reconciles[OF h1 h2 h3]
    by (simp add: upt_rec spec_reconciled_def spec_leading_dropped_def stopped_at_def bad_signature_def
          isCorrupted_def OVERRUN_EOF_def)
qed

section \<open>A verbose message without arguments\<close>

text \<open>
  Hoare triples for the steps of a parse attempt: from a state that satisfies \<open>P\<close>, a
  step that returns \<open>x\<close> reaches a state that satisfies \<open>Q x\<close>, and a step that fails
  with \<open>e\<close> reaches one that satisfies \<open>E e\<close>.
\<close>

definition triple ::
  "(pstate \<Rightarrow> bool) \<Rightarrow> 'a step \<Rightarrow> ('a \<Rightarrow> pstate \<Rightarrow> bool) \<Rightarrow> (error \<Rightarrow> pstate \<Rightarrow> bool) \<Rightarrow> bool" where
  "triple P m Q E = (\<forall>s. P s \<longrightarrow> (case m s of (Inl e, s1) \<Rightarrow> E e s1 | (Inr x, s1) \<Rightarrow> Q x s1))"

lemma triple_bind:
  "triple P m Q E \<Longrightarrow> (\<And>x. triple (Q x) (f x) R E) \<Longrightarrow> triple P (step_bind m f) R E"
  by (fastforce simp: triple_def step_bind_def split: prod.splits sum.splits)

lemma triple_seq:
  "triple P m (\<lambda>_. Q) E \<Longrightarrow> triple Q n R E \<Longrightarrow> triple P (step_seq m n) R E"
  unfolding step_seq_def by (rule triple_bind)

lemma triple_weaken:
  "triple P' m Q' E \<Longrightarrow> (\<And>s. P s \<Longrightarrow> P' s) \<Longrightarrow> (\<And>x s. Q' x s \<Longrightarrow> Q x s) \<Longrightarrow> triple P m Q E"
  by (fastforce simp: triple_def split: prod.splits sum.splits)

lemma triple_skip: "triple P skip (\<lambda>_. P) E"
  by (simp add: triple_def skip_def)

lemma triple_throw: "(\<And>s. P s \<Longrightarrow> E e s) \<Longrightarrow> triple P (throw e) Q E"
  by (simp add: triple_def throw_def)

lemma triple_lift:
  "(\<And>s x. P s \<Longrightarrow> v = Inr x \<Longrightarrow> Q x s) \<Longrightarrow> (\<And>s e. P s \<Longrightarrow> v = Inl e \<Longrightarrow> E e s)
   \<Longrightarrow> triple P (lift v) Q E"
  by (auto simp: triple_def lift_def split: sum.splits)

lemma triple_assign:
  "(\<And>s. P s \<Longrightarrow> Q () (s\<lparr> impl := f (impl s) \<rparr>)) \<Longrightarrow> triple P (assign f) Q E"
  by (simp add: triple_def assign_def)

lemma triple_with_impl:
  "(\<And>i. triple (\<lambda>s. P s \<and> impl s = i) (f i) Q E) \<Longrightarrow> triple P (with_impl f) Q E"
  by (simp add: triple_def with_impl_def)

lemma triple_if:
  "(c \<Longrightarrow> triple P a Q E) \<Longrightarrow> (\<not> c \<Longrightarrow> triple P b Q E) \<Longrightarrow> triple P (if c then a else b) Q E"
  by simp

lemma triple_bind_inv:
  "triple I m (\<lambda>_. I) E \<Longrightarrow> (\<And>x. triple I (f x) Q E) \<Longrightarrow> triple I (step_bind m f) Q E"
  by (rule triple_bind)

lemma triple_seq_inv:
  "triple I m (\<lambda>_. I) E \<Longrightarrow> triple I n Q E \<Longrightarrow> triple I (step_seq m n) Q E"
  by (rule triple_seq)

lemma triple_case_prod:
  "(\<And>a b. triple P (f a b) Q E) \<Longrightarrow> triple P (case x of (a, b) \<Rightarrow> f a b) Q E"
  by (cases x) simp

lemma triple_with_impl_any:
  "(\<And>i. triple P (f i) Q E) \<Longrightarrow> triple P (with_impl f) Q E"
  by (simp add: triple_def with_impl_def)

lemma triple_assign_inv:
  "(\<And>s. I s \<Longrightarrow> I (s\<lparr> impl := f (impl s) \<rparr>)) \<Longrightarrow> triple I (assign f) (\<lambda>_. I) E"
  by (rule triple_assign)

lemma read32_error: "read32 p be = Inl e \<Longrightarrow> e = out_of_bounds"
  by (cases p rule: load32.cases) (auto simp: read32_def)

lemma read8_error: "read8 p be = Inl e \<Longrightarrow> e = out_of_bounds"
  by (cases p) auto

lemma triple_extract32:
  "(\<And>s. I s \<Longrightarrow> E out_of_bounds s) \<Longrightarrow> triple I (extract32 p be) (\<lambda>_. I) E"
  unfolding extract32_def
  by (rule triple_lift) (auto dest: read32_error split: sum.splits simp: map_sum_def)

lemma triple_extract8:
  "(\<And>s. I s \<Longrightarrow> E out_of_bounds s) \<Longrightarrow> triple I (extract8 p) (\<lambda>_. I) E"
  unfolding extract8_def
  by (rule triple_lift) (auto dest: read8_error split: sum.splits simp: map_sum_def)

lemma triple_copy_to_message:
  "(\<And>s. I s \<Longrightarrow> E out_of_bounds s) \<Longrightarrow>
   (\<And>s f. I s \<Longrightarrow> I (s\<lparr> impl := message_update f (impl s) \<rparr>)) \<Longrightarrow>
   triple I (copy_to_message p n) (\<lambda>_. I) E"
  unfolding copy_to_message_def
  by (intro triple_if triple_throw triple_assign_inv) simp_all

text \<open>
  The predicates of the proof: the message is empty; a parse failure has left it empty;
  the record is a control message; and the goal, that a verbose record of another type
  with no arguments has an empty message.
\<close>

definition msg_empty :: "pstate \<Rightarrow> bool" where
  "msg_empty s = (message (impl s) = [])"

definition parse_failure_keeps :: "error \<Rightarrow> pstate \<Rightarrow> bool" where
  "parse_failure_keeps e s = (case e of parse_exception w n \<Rightarrow> message (impl s) = [] | _ \<Rightarrow> True)"

definition verbose_empty :: "pstate \<Rightarrow> bool" where
  "verbose_empty s =
     (if mode (impl s) = Verbose \<and> msg_type (impl s) \<noteq> TypeControl \<and> extendedHeader_noar (impl s) = 0
      then message (impl s) = [] else True)"

definition is_control :: "pstate \<Rightarrow> bool" where
  "is_control s = (msg_type (impl s) = TypeControl)"

lemma keeps_of_empty: "msg_empty s \<Longrightarrow> parse_failure_keeps e s"
  by (simp add: msg_empty_def parse_failure_keeps_def split: error.splits)

lemma keeps_oob [simp]: "parse_failure_keeps out_of_bounds s"
  by (simp add: parse_failure_keeps_def)

lemmas triple_intros =
  triple_if triple_bind_inv triple_seq_inv triple_case_prod triple_with_impl_any
  triple_assign_inv triple_extract32 triple_extract8 triple_copy_to_message triple_skip

lemma triple_service:
  "triple is_control (assembleMessage_service sid p) (\<lambda>_. is_control) parse_failure_keeps"
  unfolding assembleMessage_service_def
  by (intro triple_intros; simp add: is_control_def)

lemma triple_control:
  "triple (\<lambda>s. is_control s \<and> msg_empty s) (assembleMessage_control p) (\<lambda>_. is_control)
     parse_failure_keeps"
proof -
  let ?I = "\<lambda>s. is_control s \<and> msg_empty s"
  have set_msg: "triple ?I (assign (\<lambda>i. i\<lparr> message := m \<rparr>)) (\<lambda>_. is_control) parse_failure_keeps" for m
    by (rule triple_assign) (simp add: is_control_def)
  have named: "triple ?I (step_bind (lift (getCtrlReturnTypeName rt))
                 (\<lambda>rname. step_seq (assign (\<lambda>i. i\<lparr> message := g rname \<rparr>)) (assembleMessage_service sid p2)))
               (\<lambda>_. is_control) parse_failure_keeps" for rt g sid p2
  proof (rule triple_bind_inv)
    show "triple ?I (lift (getCtrlReturnTypeName rt)) (\<lambda>_. ?I) parse_failure_keeps"
      by (rule triple_lift) (auto intro: keeps_of_empty)
    show "triple ?I (step_seq (assign (\<lambda>i. i\<lparr> message := g rname \<rparr>)) (assembleMessage_service sid p2))
            (\<lambda>_. is_control) parse_failure_keeps" for rname
      by (rule triple_seq[OF set_msg triple_service])
  qed
  show ?thesis
    unfolding assembleMessage_control_def
    by (intro triple_intros triple_throw set_msg named;
        simp add: is_control_def msg_empty_def keeps_of_empty)
qed

lemma triple_assembleMessage:
  "triple msg_empty (assembleMessage ff p) (\<lambda>_. verbose_empty) parse_failure_keeps"
  unfolding assembleMessage_def
proof (rule triple_with_impl, intro triple_if)
  fix i :: Impl assume "msg_type i = TypeControl"
  then show "triple (\<lambda>s. msg_empty s \<and> impl s = i) (assembleMessage_control p) (\<lambda>_. verbose_empty)
          parse_failure_keeps"
    by (intro triple_weaken[OF triple_control]) (auto simp: is_control_def verbose_empty_def)
next
  fix i :: Impl assume "msg_type i \<noteq> TypeControl" "mode i = Verbose" "0 < extendedHeader_noar i"
  then have n: "extendedHeader_noar i \<noteq> 0" by auto
  let ?I = "\<lambda>s. msg_empty s \<and> impl s = i"
  show "triple ?I (step_bind (lift (ArgParser_string (isBigEndian i) ff p (extendedHeader_noar i)))
                  (\<lambda>text. assign (\<lambda>i. i\<lparr> message := text \<rparr>)))
          (\<lambda>_. verbose_empty) parse_failure_keeps"
  proof (rule triple_bind_inv)
    show "triple ?I (lift (ArgParser_string (isBigEndian i) ff p (extendedHeader_noar i))) (\<lambda>_. ?I)
            parse_failure_keeps"
      by (rule triple_lift) (auto intro: keeps_of_empty)
    show "triple ?I (assign (\<lambda>i. i\<lparr> message := str \<rparr>)) (\<lambda>_. verbose_empty) parse_failure_keeps" for str
      using n by (intro triple_assign) (simp add: verbose_empty_def)
  qed
next
  fix i :: Impl assume "msg_type i \<noteq> TypeControl" "mode i = Verbose" "\<not> 0 < extendedHeader_noar i"
  show "triple (\<lambda>s. msg_empty s \<and> impl s = i) skip (\<lambda>_. verbose_empty) parse_failure_keeps"
    by (rule triple_weaken[OF triple_skip]) (auto simp: verbose_empty_def msg_empty_def)
next
  fix i :: Impl assume m: "msg_type i \<noteq> TypeControl" "mode i \<noteq> Verbose"
  let ?I = "\<lambda>s. msg_empty s \<and> impl s = i"
  show "triple ?I (step_bind (extract32 p False)
                  (\<lambda>(w, p1). assign (\<lambda>i. i\<lparr> message := ''['' @ to_string (unat w) @ '']'' \<rparr>)))
          (\<lambda>_. verbose_empty) parse_failure_keeps"
  proof (rule triple_bind_inv)
    show "triple ?I (extract32 p False) (\<lambda>_. ?I) parse_failure_keeps"
      by (rule triple_extract32) simp
    show "triple ?I (case x of (w, p1) \<Rightarrow> assign (\<lambda>i. i\<lparr> message := ''['' @ to_string (unat w) @ '']'' \<rparr>))
            (\<lambda>_. verbose_empty) parse_failure_keeps" for x
      using m by (intro triple_case_prod triple_assign) (simp add: verbose_empty_def)
  qed
qed

lemma triple_readData: "triple msg_empty (readData n) (\<lambda>_. msg_empty) parse_failure_keeps"
  by (auto simp: triple_def readData_def step_bind_def reader_read_def msg_empty_def parse_failure_keeps_def
           split: prod.splits sum.splits error.splits)

lemma triple_parse_body:
  "triple msg_empty (parse_body ff) (\<lambda>_. verbose_empty) parse_failure_keeps"
proof -
  have a: "triple msg_empty (\<lambda>s. (Inr (), s\<lparr> len_local := read16_swap (standardHeader_len (impl s)) True
                                              - (len_local s - sizeof_DltStorageHeader) \<rparr>))
             (\<lambda>_. msg_empty) parse_failure_keeps"
    by (simp add: triple_def msg_empty_def)
  have b: "triple msg_empty (\<lambda>s. reader_read (ucast (len_local s)) s) (\<lambda>_. msg_empty) parse_failure_keeps"
    by (auto simp: triple_def reader_read_def msg_empty_def parse_failure_keeps_def
             split: prod.splits sum.splits error.splits)
  show ?thesis
    unfolding parse_body_def
    by (intro triple_seq_inv triple_bind_inv a b triple_assembleMessage)
qed

lemma triple_parse_extended:
  "triple msg_empty parse_extended (\<lambda>_. msg_empty) parse_failure_keeps"
  unfolding parse_extended_def
  by (intro triple_intros triple_readData; simp add: msg_empty_def)

lemma triple_parse_extras:
  "triple msg_empty (parse_extras ff) (\<lambda>_. verbose_empty) parse_failure_keeps"
  unfolding parse_extras_def Let_def
  by (intro triple_intros triple_readData triple_parse_extended triple_parse_body;
      simp add: msg_empty_def)

lemma triple_Impl_parse_reader:
  "triple msg_empty (Impl_parse_reader ff) (\<lambda>_. verbose_empty) parse_failure_keeps"
  unfolding Impl_parse_reader_def
  by (intro triple_intros triple_readData triple_parse_extras triple_throw;
      simp add: msg_empty_def keeps_of_empty)


lemma Impl_parse_verbose_empty:
  assumes "message this = []"
    and "Impl_parse ff handler this r h = (Inr (), record, r1, h1)"
  shows "verbose_empty \<lparr> impl = record, rdr = r1, len_local = 0 \<rparr>"
  using assms
proof (induction ff handler this r h rule: Impl_parse.induct)
  case (1 ff handler this r h)
  let ?s0 = "\<lparr> impl = this, rdr = r, len_local = 0 \<rparr>"
  obtain v s where run: "(v, s) = Impl_parse_reader ff ?s0"
    by (cases "Impl_parse_reader ff ?s0") simp
  have "msg_empty ?s0" using "1.prems"(1) by (simp add: msg_empty_def)
  then have tr: "case v of Inl e \<Rightarrow> parse_failure_keeps e s | Inr x \<Rightarrow> verbose_empty s"
    using triple_Impl_parse_reader[of ff] run[symmetric] by (auto simp: triple_def)
  show ?case
  proof (cases v)
    case (Inr x)
    with run[symmetric] "1.prems"(2) have "record = impl s"
      by (auto simp: Impl_parse.simps split: prod.splits sum.splits)
    with tr Inr show ?thesis by (simp add: verbose_empty_def)
  next
    case (Inl e)
    show ?thesis
    proof (cases e)
      case (parse_exception w n)
      obtain this1 h' where hd: "(this1, h') =
         (case handler of None \<Rightarrow> (impl s, h)
          | Some f \<Rightarrow> ((impl s)\<lparr>corruptionCause := None\<rparr>, f ((impl s)\<lparr>corruptionCause := Some w\<rparr>) h))"
        by (cases handler) auto
      have m1: "message this1 = []"
        using tr Inl parse_exception hd by (auto simp: parse_failure_keeps_def split: option.splits)
      from "1.prems"(2) run[symmetric] Inl parse_exception hd
      obtain b where n: "n = None" and sp: "set_pos (get_pos r + 1) (rdr s) = Inr b"
        and rec: "Impl_parse ff handler this1 b h' = (Inr (), record, r1, h1)"
        by (subst (asm) Impl_parse.simps) (auto split: option.splits sum.splits prod.splits)
      from "1.IH"[OF run Inl parse_exception hd n sp m1 rec] show ?thesis .
    qed (use "1.prems"(2) run[symmetric] Inl in \<open>auto simp: Impl_parse.simps\<close>)
  qed
qed

text \<open>
  Claim C10. \<open>record\<close> is what \<^verbatim>\<open>Record::parse\<close> returns for a fresh record object,
  after any number of failed attempts and resynchronisations. If it is verbose, of a
  type other than control (log or trace), and has no arguments, its message is empty:
  no attempt that fails with a parse failure touches the message, and the attempt that
  succeeds takes the branch of \<^verbatim>\<open>assembleMessage\<close> that does nothing.
\<close>

theorem verbose_without_arguments_empty_message:
  assumes "Impl_parse ff handler Impl_new r h = (Inr (), record, r1, h1)"
    and "mode record = Verbose" and "msg_type record \<noteq> TypeControl"
    and "extendedHeader_noar record = 0"
  shows "getMessage record = []"
proof -
  have "message Impl_new = []" by (simp add: Impl_new_def)
  from Impl_parse_verbose_empty[OF this assms(1)] assms(2-4)
  show ?thesis by (simp add: verbose_empty_def getMessage_def)
qed

text \<open>
  The theorem at a verbose log record with no arguments whose body holds the four bytes
  2A 00 00 00, followed in the file by one more byte: the parse succeeds and the message
  is empty, not \<open>[42]\<close>.
\<close>

definition verbose_file :: "byte list" where
  "verbose_file =
     [0x44, 0x4C, 0x54, 0x01,  0x01, 0x00, 0x00, 0x00,  0x02, 0x00, 0x00, 0x00,
      0x45, 0x43, 0x55, 0x31,
      0x21, 0x07, 0x00, 0x12,
      0x41, 0x00, 0x41, 0x50, 0x50, 0x31, 0x43, 0x54, 0x58, 0x31,
      0x2A, 0x00, 0x00, 0x00,
      0x00]"

definition verbose_record :: Impl where
  "verbose_record = long_record\<lparr> extendedHeader_msin := 0x41, mode := Verbose, message := [] \<rparr>"

theorem verbose_without_arguments_empty_message_witness:
  "Impl_parse no_float None Impl_new (reader_factory file_precache verbose_file) ()
     = (Inr (), verbose_record, (reader_factory file_precache verbose_file)\<lparr> pos := 34 \<rparr>, ())
   \<and> mode verbose_record = Verbose \<and> msg_type verbose_record \<noteq> TypeControl
   \<and> extendedHeader_noar verbose_record = 0
   \<and> getMessage verbose_record = []"
proof -
  have run: "Impl_parse no_float None Impl_new (reader_factory file_precache verbose_file) ()
     = (Inr (), verbose_record, (reader_factory file_precache verbose_file)\<lparr> pos := 34 \<rparr>, ())"
    by (simp add: Impl_parse.simps verbose_file_def verbose_record_def file_defs step_defs
          parse_defs sup_defs Let_def)
  have h2: "mode verbose_record = Verbose"
    by (simp add: verbose_record_def)
  have h3: "msg_type verbose_record \<noteq> TypeControl"
    by (simp add: verbose_record_def long_record_def TypeControl_def)
  have h4: "extendedHeader_noar verbose_record = 0"
    by (simp add: verbose_record_def long_record_def)
  from verbose_without_arguments_empty_message[OF run h2 h3 h4] run h2 h3 h4
  show ?thesis by blast
qed

end
